theory Spec2Isabelle
  imports Main
begin

section \<open>Values of the Go program\<close>

text \<open>
  The program is \<^verbatim>\<open>main.go\<close> (package main) of wireguard-go and the file of package device
  that declares \<^verbatim>\<open>Logger\<close> and \<^verbatim>\<open>NewLogger\<close>. Every call that leaves the two files (the
  operating system, the tun, ipc, conn and device packages) is an input of the model: its
  result is read from a \<open>world\<close> record, and the call is written to a trace of events in
  the order the code makes it.
\<close>

text \<open>Go \<^verbatim>\<open>error\<close> values: the two errors of \<^verbatim>\<open>strconv.ParseUint\<close> and errors of the system.\<close>

datatype go_error = ErrSyntax | ErrRange | OSError string

text \<open>
  \<^verbatim>\<open>*os.File\<close>: \<open>NewFile fd\<close> is \<^verbatim>\<open>os.NewFile(uintptr(fd), "")\<close>, \<open>Opened p\<close> is the file
  a successful \<^verbatim>\<open>os.Open(p)\<close> returns, \<open>Stdout\<close> and \<open>Stderr\<close> are \<^verbatim>\<open>os.Stdout\<close> and
  \<^verbatim>\<open>os.Stderr\<close>, \<open>LibFile n\<close> is a file made by a library call. A nil pointer is \<open>None\<close>.
\<close>

datatype os_file = NewFile nat | Opened string | Stdout | Stderr | LibFile nat

text \<open>
  \<^verbatim>\<open>tun.Device\<close> is an interface; the model keeps what main.go calls on it: the result of
  \<^verbatim>\<open>Name()\<close> and of \<^verbatim>\<open>File()\<close>.
\<close>

record tun_device =
  dev_Name :: "go_error + string"
  dev_File :: "os_file option"

text \<open>Arguments of a Printf-style call: \<^verbatim>\<open>%s\<close> takes a string, \<^verbatim>\<open>%v\<close> an error.\<close>

datatype fmt_arg = ArgS string | ArgE go_error

subsection \<open>The logger of package device\<close>

text \<open>
  A sink of the logger is a function value: \<^verbatim>\<open>DiscardLogf\<close>, or the \<^verbatim>\<open>Printf\<close> method of
  \<^verbatim>\<open>log.New(os.Stdout, prefix, log.Ldate|log.Ltime)\<close>, written \<open>LogPrintf prefix\<close>.
\<close>

datatype logf = DiscardLogf | LogPrintf string

record Logger =
  Verbosef :: logf
  Errorf :: logf

definition LogLevelSilent :: int where "LogLevelSilent = 0"
definition LogLevelError :: int where "LogLevelError = 1"
definition LogLevelVerbose :: int where "LogLevelVerbose = 2"

definition NewLogger :: "int \<Rightarrow> string \<Rightarrow> Logger" where
  "NewLogger level prepend =
     (let logger = \<lparr>Verbosef = DiscardLogf, Errorf = DiscardLogf\<rparr>;
          logf = (\<lambda>prefix. LogPrintf (prefix @ '': '' @ prepend));
          logger = (if level \<ge> LogLevelVerbose then logger\<lparr>Verbosef := logf ''DEBUG''\<rparr> else logger);
          logger = (if level \<ge> LogLevelError then logger\<lparr>Errorf := logf ''ERROR''\<rparr> else logger)
      in logger)"

subsection \<open>What the process can observe and do\<close>

record ProcAttr =
  Files :: "os_file option list"
  Dir :: string
  Env :: "string list"

datatype termination_event = Signal_received | Accept_error | Engine_fatal

datatype signal = SIGTERM | Interrupt

datatype event =
    Printf string "fmt_arg list"
  | Warning_banner
  | Call_CreateTUN string nat
  | Call_SetNonblock nat
  | Call_NewFile nat
  | Call_CreateTUNFromFile os_file nat
  | Call_Name
  | Log_line string string "fmt_arg list"
  | Call_UAPIOpen string
  | Call_Environ
  | Call_Open string
  | Call_File
  | Call_Executable
  | Call_StartProcess string "string list" ProcAttr
  | Call_Release
  | Call_NewDefaultBind
  | Call_NewDevice tun_device Logger
  | Call_UAPIListen string os_file
  | Go_accept_loop
  | Call_Notify signal
  | Select termination_event
  | Call_Accept "go_error + nat"
  | Go_IpcHandle nat
  | Send_errs go_error
  | Call_uapi_Close
  | Call_device_Close

text \<open>
  Calling a sink: the discarding function does nothing, the printing one writes one line to
  standard output (the prefix, the date and time, the formatted message).
\<close>

fun call_logf :: "logf \<Rightarrow> string \<Rightarrow> fmt_arg list \<Rightarrow> event list" where
  "call_logf DiscardLogf format args = []"
| "call_logf (LogPrintf prefix) format args = [Log_line prefix format args]"

text \<open>
  How a process ends: \<open>Exited c\<close> with exit code \<open>c\<close> (a return from main is code 0),
  \<open>Panicked\<close> on a run-time panic, \<open>Blocked\<close> when main waits for ever.
\<close>

datatype proc_status = Exited nat | Panicked | Blocked

text \<open>
  The inputs of one run. \<open>Getenv\<close> is \<^verbatim>\<open>os.Getenv\<close> (the empty string when the variable
  is unset), \<open>Environ\<close> is \<^verbatim>\<open>os.Environ()\<close>. \<open>Version\<close> and \<open>DefaultMTU\<close> are constants
  declared outside the two files. A function to \<open>go_error option\<close> returns \<open>None\<close> for a
  nil error. \<open>Accept_results\<close> lists what the calls of \<^verbatim>\<open>uapi.Accept()\<close> return, in
  order (a connection is a number); \<open>Select_result\<close> is the case of the final
  \<^verbatim>\<open>select\<close> that becomes ready first, \<open>None\<close> if none ever does.
\<close>

record world =
  Args :: "string list"
  GOOS :: string
  GOARCH :: string
  Version :: string
  DefaultMTU :: nat
  Getenv :: "string \<Rightarrow> string"
  Environ :: "string list"
  CreateTUN :: "string \<Rightarrow> nat \<Rightarrow> go_error + tun_device"
  SetNonblock :: "nat \<Rightarrow> go_error option"
  CreateTUNFromFile :: "os_file \<Rightarrow> nat \<Rightarrow> go_error + tun_device"
  UAPIOpen :: "string \<Rightarrow> go_error + os_file"
  Open_error :: "string \<Rightarrow> go_error option"
  Executable :: "go_error + string"
  StartProcess :: "string \<Rightarrow> string list \<Rightarrow> ProcAttr \<Rightarrow> go_error option"
  UAPIListen :: "string \<Rightarrow> os_file \<Rightarrow> go_error option"
  Accept_results :: "(go_error + nat) list"
  Select_result :: "termination_event option"

record outcome =
  trace :: "event list"
  goroutine :: "event list"
  status :: proc_status

subsection \<open>Library functions used by main.go\<close>

text \<open>
  \<^verbatim>\<open>strconv.ParseUint(s, 10, 32)\<close>, after the documentation and code of the Go library:
  the empty string and any byte that is not a decimal digit give a syntax error (no sign,
  no underscore with an explicit base), a value above \<open>2^32 - 1\<close> gives a range error. The
  bytes are read from the left, so the error of the first offending position is returned.
\<close>

definition digit_of :: "char \<Rightarrow> nat option" where
  "digit_of c = (let k = (of_char c :: nat) in if 48 \<le> k \<and> k \<le> 57 then Some (k - 48) else None)"

definition maxVal32 :: nat where "maxVal32 = 2 ^ 32 - 1"

fun parse_digits :: "nat \<Rightarrow> string \<Rightarrow> go_error + nat" where
  "parse_digits n [] = Inr n"
| "parse_digits n (c # cs) =
     (case digit_of c of
        None \<Rightarrow> Inl ErrSyntax
      | Some d \<Rightarrow> (let n1 = n * 10 + d in if n1 > maxVal32 then Inl ErrRange else parse_digits n1 cs))"

definition ParseUint :: "string \<Rightarrow> go_error + nat" where
  "ParseUint s = (if s = [] then Inl ErrSyntax else parse_digits 0 s)"

text \<open>\<^verbatim>\<open>os.Open(p)\<close> and \<^verbatim>\<open>os.DevNull\<close> (this file is built for non-Windows systems only).\<close>

definition os_DevNull :: string where "os_DevNull = ''/dev/null''"

definition os_Open :: "world \<Rightarrow> string \<Rightarrow> go_error + os_file" where
  "os_Open w p = (case Open_error w p of Some err \<Rightarrow> Inl err | None \<Rightarrow> Inr (Opened p))"

text \<open>\<^verbatim>\<open>f, _ = os.Open(p)\<close>: the error is dropped and \<open>f\<close> is nil when the call fails.\<close>

definition Open_ignoring_error :: "world \<Rightarrow> string \<Rightarrow> os_file option" where
  "Open_ignoring_error w p = (case os_Open w p of Inl err \<Rightarrow> None | Inr f \<Rightarrow> Some f)"

subsection \<open>The environment of a process\<close>

text \<open>
  How a Go process reads the environment it was started with, after \<^verbatim>\<open>copyenv\<close>,
  \<^verbatim>\<open>Getenv\<close> and \<^verbatim>\<open>Environ\<close> of package syscall (Unix): the key of an entry is the text
  before its first \<^verbatim>\<open>=\<close>; of several entries with one key the first is kept and the later
  ones are cleared; \<^verbatim>\<open>Getenv\<close> returns the value of the entry kept for the key (the empty
  string when there is none, or when the key is empty); \<^verbatim>\<open>Environ\<close> returns the entries that
  are not cleared and not empty. \<^verbatim>\<open>os.StartProcess\<close> hands \<^verbatim>\<open>attr.Env\<close> to the new process
  as it is.
\<close>

definition env_key :: "string \<Rightarrow> string option" where
  "env_key s = (if CHR ''='' \<in> set s then Some (takeWhile (\<lambda>c. c \<noteq> CHR ''='') s) else None)"

definition env_value :: "string \<Rightarrow> string" where
  "env_value s = drop (Suc (length (takeWhile (\<lambda>c. c \<noteq> CHR ''='') s))) s"

fun first_entry :: "string list \<Rightarrow> string \<Rightarrow> string" where
  "first_entry [] key = []"
| "first_entry (s # rest) key =
     (if env_key s = Some key then env_value s else first_entry rest key)"

definition Getenv_in :: "string list \<Rightarrow> string \<Rightarrow> string" where
  "Getenv_in envs key = (if key = [] then [] else first_entry envs key)"

fun kept_entries :: "string list \<Rightarrow> string list \<Rightarrow> string list" where
  "kept_entries seen [] = []"
| "kept_entries seen (s # rest) =
     (case env_key s of
        None \<Rightarrow> (if s = [] then kept_entries seen rest else s # kept_entries seen rest)
      | Some k \<Rightarrow>
          (if k \<in> set seen then kept_entries seen rest else s # kept_entries (k # seen) rest))"

definition Environ_in :: "string list \<Rightarrow> string list" where
  "Environ_in envs = kept_entries [] envs"

text \<open>
  The process that \<^verbatim>\<open>os.StartProcess(path, os.Args, attr)\<close> starts: the same program with
  the same arguments, reading its environment from \<^verbatim>\<open>attr.Env\<close>. The results of its other
  calls are those of \<open>w\<close>.
\<close>

definition child_world :: "world \<Rightarrow> ProcAttr \<Rightarrow> world" where
  "child_world w attr = w\<lparr>Getenv := Getenv_in (Env attr), Environ := Environ_in (Env attr)\<rparr>"

section \<open>main.go\<close>

definition ExitSetupSuccess :: nat where "ExitSetupSuccess = 0"
definition ExitSetupFailed :: nat where "ExitSetupFailed = 1"

definition ENV_WG_TUN_FD :: string where "ENV_WG_TUN_FD = ''WG_TUN_FD''"
definition ENV_WG_UAPI_FD :: string where "ENV_WG_UAPI_FD = ''WG_UAPI_FD''"
definition ENV_WG_PROCESS_FOREGROUND :: string where
  "ENV_WG_PROCESS_FOREGROUND = ''WG_PROCESS_FOREGROUND''"

text \<open>\<^verbatim>\<open>printUsage\<close> reads \<^verbatim>\<open>os.Args[0]\<close>, which panics when the argument vector is empty.\<close>

definition printUsage :: "world \<Rightarrow> event list option" where
  "printUsage w =
     (case Args w of
        [] \<Rightarrow> None
      | a0 # _ \<Rightarrow> Some [Printf ''Usage: %s [-f/--foreground] INTERFACE-NAME\<newline>'' [ArgS a0]])"

text \<open>
  \<^verbatim>\<open>warning\<close> writes a nine-line banner to standard error (one event here), on linux,
  freebsd and openbsd, unless the foreground marker is "1".
\<close>

definition warning :: "world \<Rightarrow> event list" where
  "warning w =
     (if GOOS w = ''linux'' \<or> GOOS w = ''freebsd'' \<or> GOOS w = ''openbsd''
      then (if Getenv w ENV_WG_PROCESS_FOREGROUND = ''1'' then [] else [Warning_banner])
      else [])"

subsection \<open>Lines 61 to 92: the command line\<close>

text \<open>\<^verbatim>\<open>printUsage(); return\<close>: a return from main ends the process with code 0.\<close>

definition usage_return :: "world \<Rightarrow> event list \<Rightarrow> event list \<times> (proc_status + bool \<times> string)" where
  "usage_return w ev =
     (case printUsage w of
        None \<Rightarrow> (ev, Inl Panicked)
      | Some u \<Rightarrow> (ev @ u, Inl (Exited 0)))"

definition version_format :: string where
  "version_format = ''wireguard-go v%s\<newline>\<newline>Userspace WireGuard daemon for %s-%s.\<newline>Information available at https://www.wireguard.com.\<newline>Copyright (C) Jason A. Donenfeld <Jason@zx2c4.com>.\<newline>''"

definition parse_args :: "world \<Rightarrow> event list \<times> (proc_status + bool \<times> string)" where
  "parse_args w =
     (let args = Args w in
      if length args = 2 \<and> args ! 1 = ''--version''
      then ([Printf version_format [ArgS (Version w), ArgS (GOOS w), ArgS (GOARCH w)]], Inl (Exited 0))
      else
        let ev = warning w in
        if length args < 2 \<or> length args > 3 then usage_return w ev
        else if args ! 1 = ''-f'' \<or> args ! 1 = ''--foreground''
        then (if length args \<noteq> 3 then usage_return w ev else (ev, Inr (True, args ! 2)))
        else (if length args \<noteq> 2 then usage_return w ev else (ev, Inr (False, args ! 1))))"

subsection \<open>Lines 94 to 154: log level, tunnel device, logger\<close>

definition logLevel :: "world \<Rightarrow> int" where
  "logLevel w =
     (let v = Getenv w ''LOG_LEVEL'' in
      if v = ''verbose'' \<or> v = ''debug'' then LogLevelVerbose
      else if v = ''error'' then LogLevelError
      else if v = ''silent'' then LogLevelSilent
      else LogLevelError)"

text \<open>
  The function literal of lines 115 to 135. \<^verbatim>\<open>int(fd)\<close> and \<^verbatim>\<open>uintptr(fd)\<close> keep the
  value (it is below \<open>2^32\<close>; \<^verbatim>\<open>int\<close> is taken to have 64 bits).
\<close>

definition open_tun :: "world \<Rightarrow> string \<Rightarrow> event list \<times> (go_error + tun_device)" where
  "open_tun w name =
     (let tunFdStr = Getenv w ENV_WG_TUN_FD in
      if tunFdStr = ''''
      then ([Call_CreateTUN name (DefaultMTU w)], CreateTUN w name (DefaultMTU w))
      else
        case ParseUint tunFdStr of
          Inl err \<Rightarrow> ([], Inl err)
        | Inr fd \<Rightarrow>
            (case SetNonblock w fd of
               Some err \<Rightarrow> ([Call_SetNonblock fd], Inl err)
             | None \<Rightarrow>
                 ([Call_SetNonblock fd, Call_NewFile fd, Call_CreateTUNFromFile (NewFile fd) (DefaultMTU w)],
                  CreateTUNFromFile w (NewFile fd) (DefaultMTU w))))"

text \<open>Lines 137 to 142: the name of the interface after \<^verbatim>\<open>tdev.Name()\<close>.\<close>

definition read_name :: "string \<Rightarrow> go_error + tun_device \<Rightarrow> event list \<times> string" where
  "read_name name r =
     (case r of
        Inl err \<Rightarrow> ([], name)
      | Inr dev \<Rightarrow>
          (case dev_Name dev of
             Inl err2 \<Rightarrow> ([Call_Name], name)
           | Inr realInterfaceName \<Rightarrow> ([Call_Name], realInterfaceName)))"

text \<open>The local variables of main that are live after line 154.\<close>

record locals =
  foreground :: bool
  interfaceName :: string
  tdev :: tun_device
  logger :: Logger

definition tun_phase :: "world \<Rightarrow> bool \<Rightarrow> string \<Rightarrow> event list \<times> (proc_status + locals)" where
  "tun_phase w fg name =
     (let fg' = (if \<not> fg then Getenv w ENV_WG_PROCESS_FOREGROUND = ''1'' else fg);
          (ev1, r) = open_tun w name;
          (ev2, name') = read_name name r;
          lg = NewLogger (logLevel w) (''('' @ name' @ '') '');
          ev3 = call_logf (Verbosef lg) ''Starting wireguard-go version %s'' [ArgS (Version w)]
      in case r of
           Inl err \<Rightarrow>
             (ev1 @ ev2 @ ev3 @ call_logf (Errorf lg) ''Failed to create TUN device: %v'' [ArgE err],
              Inl (Exited ExitSetupFailed))
         | Inr dev \<Rightarrow>
             (ev1 @ ev2 @ ev3,
              Inr \<lparr>foreground = fg', interfaceName = name', tdev = dev, logger = lg\<rparr>))"

subsection \<open>Lines 158 to 177: the configuration socket\<close>

definition open_uapi :: "world \<Rightarrow> string \<Rightarrow> event list \<times> (go_error + os_file)" where
  "open_uapi w name =
     (let uapiFdStr = Getenv w ENV_WG_UAPI_FD in
      if uapiFdStr = ''''
      then ([Call_UAPIOpen name], UAPIOpen w name)
      else
        case ParseUint uapiFdStr of
          Inl err \<Rightarrow> ([], Inl err)
        | Inr fd \<Rightarrow> ([Call_NewFile fd], Inr (NewFile fd)))"

definition uapi_phase :: "world \<Rightarrow> locals \<Rightarrow> event list \<times> (proc_status + os_file)" where
  "uapi_phase w ls =
     (case open_uapi w (interfaceName ls) of
        (ev, Inl err) \<Rightarrow>
          (ev @ call_logf (Errorf (logger ls)) ''UAPI listen error: %v'' [ArgE err],
           Inl (Exited ExitSetupFailed))
      | (ev, Inr fileUAPI) \<Rightarrow> (ev, Inr fileUAPI))"

subsection \<open>Lines 180 to 224: relaunching in the background\<close>

definition daemon_env :: "world \<Rightarrow> string list" where
  "daemon_env w =
     ((Environ w @ [ENV_WG_TUN_FD @ ''=3'']) @ [ENV_WG_UAPI_FD @ ''=4''])
       @ [ENV_WG_PROCESS_FOREGROUND @ ''=1'']"

text \<open>The array \<^verbatim>\<open>files\<close> of lines 185 to 194, and the calls of \<^verbatim>\<open>os.Open\<close> that fill it.\<close>

definition daemon_files :: "world \<Rightarrow> os_file option list" where
  "daemon_files w =
     (if Getenv w ''LOG_LEVEL'' \<noteq> '''' \<and> logLevel w \<noteq> LogLevelSilent
      then [Open_ignoring_error w os_DevNull, Some Stdout, Some Stderr]
      else [Open_ignoring_error w os_DevNull, Open_ignoring_error w os_DevNull,
            Open_ignoring_error w os_DevNull])"

definition daemon_opens :: "world \<Rightarrow> event list" where
  "daemon_opens w =
     (if Getenv w ''LOG_LEVEL'' \<noteq> '''' \<and> logLevel w \<noteq> LogLevelSilent
      then [Call_Open os_DevNull]
      else [Call_Open os_DevNull, Call_Open os_DevNull, Call_Open os_DevNull])"

definition daemon_attr :: "world \<Rightarrow> locals \<Rightarrow> os_file \<Rightarrow> ProcAttr" where
  "daemon_attr w ls fileUAPI =
     \<lparr>Files = [daemon_files w ! 0, daemon_files w ! 1, daemon_files w ! 2,
               dev_File (tdev ls), Some fileUAPI],
      Dir = ''.'',
      Env = daemon_env w\<rparr>"

definition daemonize :: "world \<Rightarrow> locals \<Rightarrow> os_file \<Rightarrow> event list \<times> proc_status" where
  "daemonize w ls fileUAPI =
     (let attr = daemon_attr w ls fileUAPI;
          ev = [Call_Environ] @ daemon_opens w @ [Call_File, Call_Executable]
      in case Executable w of
           Inl err \<Rightarrow>
             (ev @ call_logf (Errorf (logger ls)) ''Failed to determine executable: %v'' [ArgE err],
              Exited ExitSetupFailed)
         | Inr path \<Rightarrow>
             (case StartProcess w path (Args w) attr of
                Some err \<Rightarrow>
                  (ev @ [Call_StartProcess path (Args w) attr]
                     @ call_logf (Errorf (logger ls)) ''Failed to daemonize: %v'' [ArgE err],
                   Exited ExitSetupFailed)
              | None \<Rightarrow> (ev @ [Call_StartProcess path (Args w) attr, Call_Release], Exited 0)))"

subsection \<open>Lines 228 to 274: running in place\<close>

text \<open>
  The goroutine of lines 243 to 252 as a function of the results of its calls of
  \<^verbatim>\<open>uapi.Accept()\<close>. When the results are used up the goroutine is inside \<^verbatim>\<open>Accept\<close>
  (it waits there, or the process has ended).
\<close>

fun accept_loop :: "(go_error + nat) list \<Rightarrow> event list" where
  "accept_loop [] = []"
| "accept_loop (Inl err # rest) = [Call_Accept (Inl err), Send_errs err]"
| "accept_loop (Inr conn # rest) = Call_Accept (Inr conn) # Go_IpcHandle conn # accept_loop rest"

definition run_in_place :: "world \<Rightarrow> locals \<Rightarrow> os_file \<Rightarrow> outcome" where
  "run_in_place w ls fileUAPI =
     (let ev1 = [Call_NewDefaultBind, Call_NewDevice (tdev ls) (logger ls)]
                  @ call_logf (Verbosef (logger ls)) ''Device started'' []
                  @ [Call_UAPIListen (interfaceName ls) fileUAPI]
      in case UAPIListen w (interfaceName ls) fileUAPI of
           Some err \<Rightarrow>
             \<lparr>trace = ev1 @ call_logf (Errorf (logger ls)) ''Failed to listen on uapi socket: %v'' [ArgE err],
              goroutine = [],
              status = Exited ExitSetupFailed\<rparr>
         | None \<Rightarrow>
             (let ev2 = ev1 @ [Go_accept_loop]
                          @ call_logf (Verbosef (logger ls)) ''UAPI listener started'' []
                          @ [Call_Notify SIGTERM, Call_Notify Interrupt]
              in case Select_result w of
                   None \<Rightarrow>
                     \<lparr>trace = ev2, goroutine = accept_loop (Accept_results w), status = Blocked\<rparr>
                 | Some t \<Rightarrow>
                     \<lparr>trace = ev2 @ [Select t, Call_uapi_Close, Call_device_Close]
                                @ call_logf (Verbosef (logger ls)) ''Shutting down'' [],
                      goroutine = accept_loop (Accept_results w),
                      status = Exited 0\<rparr>))"

subsection \<open>The function main\<close>

definition main :: "world \<Rightarrow> outcome" where
  "main w =
     (case parse_args w of
        (ev1, Inl st) \<Rightarrow> \<lparr>trace = ev1, goroutine = [], status = st\<rparr>
      | (ev1, Inr (fg, name)) \<Rightarrow>
          (case tun_phase w fg name of
             (ev2, Inl st) \<Rightarrow> \<lparr>trace = ev1 @ ev2, goroutine = [], status = st\<rparr>
           | (ev2, Inr ls) \<Rightarrow>
               (case uapi_phase w ls of
                  (ev3, Inl st) \<Rightarrow> \<lparr>trace = ev1 @ ev2 @ ev3, goroutine = [], status = st\<rparr>
                | (ev3, Inr fileUAPI) \<Rightarrow>
                    if \<not> foreground ls
                    then (case daemonize w ls fileUAPI of
                            (ev4, st) \<Rightarrow> \<lparr>trace = ev1 @ ev2 @ ev3 @ ev4, goroutine = [], status = st\<rparr>)
                    else (let r = run_in_place w ls fileUAPI
                          in r\<lparr>trace := ev1 @ ev2 @ ev3 @ trace r\<rparr>))))"

section \<open>Reading a trace\<close>

text \<open>The relaunch is the call of \<^verbatim>\<open>os.StartProcess\<close>.\<close>

fun is_relaunch :: "event \<Rightarrow> bool" where
  "is_relaunch (Call_StartProcess path args attr) = True"
| "is_relaunch _ = False"

text \<open>The teardown is \<^verbatim>\<open>uapi.Close()\<close> and \<^verbatim>\<open>device.Close()\<close>.\<close>

fun is_teardown :: "event \<Rightarrow> bool" where
  "is_teardown Call_uapi_Close = True"
| "is_teardown Call_device_Close = True"
| "is_teardown _ = False"

fun is_select :: "event \<Rightarrow> bool" where
  "is_select (Select t) = True"
| "is_select _ = False"

text \<open>
  \<open>names_ok r e\<close>: if the event \<open>e\<close> binds the configuration socket by name, or writes a
  log line, then the interface name in it is \<open>r\<close>.
\<close>

fun names_ok :: "string \<Rightarrow> event \<Rightarrow> bool" where
  "names_ok r (Call_UAPIOpen x) = (x = r)"
| "names_ok r (Call_UAPIListen x f) = (x = r)"
| "names_ok r (Log_line p format args) =
     (p = ''DEBUG: ('' @ r @ '') '' \<or> p = ''ERROR: ('' @ r @ '') '')"
| "names_ok r _ = True"

text \<open>A line written by the error sink: its prefix starts with the tag ERROR.\<close>

fun is_error_line :: "event \<Rightarrow> bool" where
  "is_error_line (Log_line p format args) = (take 5 p = ''ERROR'')"
| "is_error_line _ = False"

text \<open>The connections accepted, the handlers started and the errors sent, in order.\<close>

fun accepted_of :: "event \<Rightarrow> nat option" where
  "accepted_of (Call_Accept (Inr conn)) = Some conn"
| "accepted_of _ = None"




text \<open>
  A well-formed unsigned integer, in the words of the specification: a non-empty string of
  decimal digits.
\<close>

definition well_formed_uint :: "string \<Rightarrow> bool" where
  "well_formed_uint s = (s \<noteq> [] \<and> list_all (\<lambda>c. c \<in> set ''0123456789'') s)"

section \<open>Concrete runs\<close>

text \<open>
  \<open>world_fg\<close>: \<^verbatim>\<open>wireguard-go -f wg0\<close> on Linux with an empty environment; every call
  succeeds, two connections are accepted before the listener is closed, and a signal
  ends the run.
\<close>

definition world_fg :: world where
  "world_fg =
     \<lparr>Args = [''wireguard-go'', ''-f'', ''wg0''], GOOS = ''linux'', GOARCH = ''amd64'',
      Version = ''0.0.20250522'', DefaultMTU = 1420,
      Getenv = (\<lambda>k. ''''), Environ = [''PATH=/usr/bin''],
      CreateTUN = (\<lambda>n mtu. Inr \<lparr>dev_Name = Inr n, dev_File = Some (LibFile 5)\<rparr>),
      SetNonblock = (\<lambda>fd. None),
      CreateTUNFromFile = (\<lambda>f mtu. Inr \<lparr>dev_Name = Inr ''wg0'', dev_File = Some f\<rparr>),
      UAPIOpen = (\<lambda>n. Inr (LibFile 6)),
      Open_error = (\<lambda>p. None),
      Executable = Inr ''/usr/bin/wireguard-go'',
      StartProcess = (\<lambda>p a attr. None),
      UAPIListen = (\<lambda>n f. None),
      Accept_results = [Inr 1, Inr 2, Inl (OSError ''use of closed network connection'')],
      Select_result = Some Signal_received\<rparr>"

text \<open>\<open>world_bg\<close>: \<^verbatim>\<open>LOG_LEVEL=error wireguard-go wg0\<close>, which relaunches.\<close>

definition world_bg :: world where
  "world_bg =
     world_fg\<lparr>Args := [''wireguard-go'', ''wg0''],
              Getenv := (\<lambda>k. if k = ''LOG_LEVEL'' then ''error'' else '''')\<rparr>"

text \<open>
  \<open>world_child\<close>: the relaunched process, with the two descriptors and the foreground
  marker in its environment.
\<close>

definition world_child :: world where
  "world_child =
     world_fg\<lparr>Args := [''wireguard-go'', ''wg0''],
              Getenv := (\<lambda>k. if k = ''WG_TUN_FD'' then ''3''
                              else if k = ''WG_UAPI_FD'' then ''4''
                              else if k = ''WG_PROCESS_FOREGROUND'' then ''1''
                              else ''''),
              Select_result := Some Accept_error\<rparr>"

text \<open>\<open>world_bad_fd\<close>: the tunnel descriptor and the socket descriptor are not numbers.\<close>

definition world_bad_fd :: world where
  "world_bad_fd =
     world_fg\<lparr>Getenv := (\<lambda>k. if k = ''WG_TUN_FD'' then ''abc''
                              else if k = ''WG_UAPI_FD'' then ''4x''
                              else '''')\<rparr>"

text \<open>\<open>world_renamed\<close>: the system names the new interface \<open>utun3\<close>, not \<open>utun\<close>.\<close>

definition world_renamed :: world where
  "world_renamed =
     world_fg\<lparr>Args := [''wireguard-go'', ''-f'', ''utun''], GOOS := ''darwin'',
              CreateTUN := (\<lambda>n mtu. Inr \<lparr>dev_Name = Inr ''utun3'', dev_File = Some (LibFile 5)\<rparr>),
              Getenv := (\<lambda>k. if k = ''LOG_LEVEL'' then ''debug'' else '''')\<rparr>"

text \<open>\<open>world_noname\<close>: the device is created, reading its name fails.\<close>

definition world_noname :: world where
  "world_noname =
     world_fg\<lparr>CreateTUN := (\<lambda>n mtu. Inr \<lparr>dev_Name = Inl (OSError ''ioctl failed''),
                                          dev_File = Some (LibFile 5)\<rparr>),
              Getenv := (\<lambda>k. if k = ''LOG_LEVEL'' then ''debug'' else '''')\<rparr>"

text \<open>\<open>world_bad_uapi\<close>: only the socket descriptor is not a number.\<close>

definition world_bad_uapi :: world where
  "world_bad_uapi = world_fg\<lparr>Getenv := (\<lambda>k. if k = ''WG_UAPI_FD'' then ''4x'' else [])\<rparr>"

text \<open>
  \<open>world_marked0\<close>: \<^verbatim>\<open>WG_PROCESS_FOREGROUND=0 wireguard-go wg0\<close>; \<open>attr_marked0\<close> is the
  \<^verbatim>\<open>os.ProcAttr\<close> of its relaunch and \<open>attr_marked0_child\<close> the one of the relaunch that its
  child makes.
\<close>

definition world_marked0 :: world where
  "world_marked0 =
     world_fg\<lparr>Args := [''wireguard-go'', ''wg0''],
              Environ := [''PATH=/usr/bin'', ''WG_PROCESS_FOREGROUND=0''],
              Getenv := Getenv_in [''PATH=/usr/bin'', ''WG_PROCESS_FOREGROUND=0'']\<rparr>"

definition attr_marked0 :: ProcAttr where
  "attr_marked0 =
     \<lparr>Files = [Some (Opened ''/dev/null''), Some (Opened ''/dev/null''), Some (Opened ''/dev/null''),
               Some (LibFile 5), Some (LibFile 6)],
      Dir = ''.'',
      Env = [''PATH=/usr/bin'', ''WG_PROCESS_FOREGROUND=0'', ''WG_TUN_FD=3'', ''WG_UAPI_FD=4'',
             ''WG_PROCESS_FOREGROUND=1'']\<rparr>"

definition attr_marked0_child :: ProcAttr where
  "attr_marked0_child =
     \<lparr>Files = [Some (Opened ''/dev/null''), Some (Opened ''/dev/null''), Some (Opened ''/dev/null''),
               Some (NewFile 3), Some (NewFile 4)],
      Dir = ''.'',
      Env = [''PATH=/usr/bin'', ''WG_PROCESS_FOREGROUND=0'', ''WG_TUN_FD=3'', ''WG_UAPI_FD=4'',
             ''WG_TUN_FD=3'', ''WG_UAPI_FD=4'', ''WG_PROCESS_FOREGROUND=1'']\<rparr>"

text \<open>The local variables of main after line 154 in four of these runs.\<close>

definition locals_fg :: locals where
  "locals_fg =
     \<lparr>foreground = True, interfaceName = ''wg0'',
      tdev = \<lparr>dev_Name = Inr ''wg0'', dev_File = Some (LibFile 5)\<rparr>,
      logger = \<lparr>Verbosef = DiscardLogf, Errorf = LogPrintf ''ERROR: (wg0) ''\<rparr>\<rparr>"

definition locals_child :: locals where
  "locals_child =
     locals_fg\<lparr>tdev := \<lparr>dev_Name = Inr ''wg0'', dev_File = Some (NewFile 3)\<rparr>\<rparr>"

definition locals_renamed :: locals where
  "locals_renamed =
     \<lparr>foreground = True, interfaceName = ''utun3'',
      tdev = \<lparr>dev_Name = Inr ''utun3'', dev_File = Some (LibFile 5)\<rparr>,
      logger = \<lparr>Verbosef = LogPrintf ''DEBUG: (utun3) '', Errorf = LogPrintf ''ERROR: (utun3) ''\<rparr>\<rparr>"

definition locals_noname :: locals where
  "locals_noname =
     \<lparr>foreground = True, interfaceName = ''wg0'',
      tdev = \<lparr>dev_Name = Inl (OSError ''ioctl failed''), dev_File = Some (LibFile 5)\<rparr>,
      logger = \<lparr>Verbosef = LogPrintf ''DEBUG: (wg0) '', Errorf = LogPrintf ''ERROR: (wg0) ''\<rparr>\<rparr>"

section \<open>Evaluation\<close>

lemmas main_defs =
  main_def parse_args_def warning_def usage_return_def printUsage_def
  tun_phase_def open_tun_def read_name_def uapi_phase_def open_uapi_def NewLogger_def logLevel_def
  daemonize_def daemon_attr_def daemon_files_def daemon_opens_def daemon_env_def run_in_place_def
  ENV_WG_TUN_FD_def ENV_WG_UAPI_FD_def ENV_WG_PROCESS_FOREGROUND_def
  LogLevelSilent_def LogLevelError_def LogLevelVerbose_def ExitSetupFailed_def ExitSetupSuccess_def
  ParseUint_def digit_of_def maxVal32_def os_DevNull_def os_Open_def Open_ignoring_error_def

section \<open>The log level and the logger\<close>

text \<open>
  Claim C7. The log-level selector maps the values "verbose" and "debug" of \<^verbatim>\<open>LOG_LEVEL\<close> to
  the verbose level, "error" to the error level and "silent" to the silent level; every
  other value, the empty string of an unset variable included, gives the error level.
  The three levels are different numbers, in the order silent, error, verbose.
\<close>

theorem logLevel_selector:
  "LogLevelSilent < LogLevelError \<and> LogLevelError < LogLevelVerbose \<and>
   (Getenv w ''LOG_LEVEL'' = ''verbose'' \<or> Getenv w ''LOG_LEVEL'' = ''debug''
      \<longrightarrow> logLevel w = LogLevelVerbose) \<and>
   (Getenv w ''LOG_LEVEL'' = ''error'' \<longrightarrow> logLevel w = LogLevelError) \<and>
   (Getenv w ''LOG_LEVEL'' = ''silent'' \<longrightarrow> logLevel w = LogLevelSilent) \<and>
   (Getenv w ''LOG_LEVEL'' \<notin> {''verbose'', ''debug'', ''error'', ''silent''}
      \<longrightarrow> logLevel w = LogLevelError)"
  by (simp add: logLevel_def LogLevelSilent_def LogLevelError_def LogLevelVerbose_def)

theorem logLevel_selector_witness:
  "logLevel (world_fg\<lparr>Getenv := (\<lambda>k. ''verbose'')\<rparr>) = LogLevelVerbose \<and>
   logLevel (world_fg\<lparr>Getenv := (\<lambda>k. ''debug'')\<rparr>) = LogLevelVerbose \<and>
   logLevel (world_fg\<lparr>Getenv := (\<lambda>k. ''error'')\<rparr>) = LogLevelError \<and>
   logLevel (world_fg\<lparr>Getenv := (\<lambda>k. ''silent'')\<rparr>) = LogLevelSilent \<and>
   logLevel (world_fg\<lparr>Getenv := (\<lambda>k. ''info'')\<rparr>) = LogLevelError \<and>
   logLevel world_fg = LogLevelError"
  using logLevel_selector [of "world_fg\<lparr>Getenv := (\<lambda>k. ''verbose'')\<rparr>"]
        logLevel_selector [of "world_fg\<lparr>Getenv := (\<lambda>k. ''debug'')\<rparr>"]
        logLevel_selector [of "world_fg\<lparr>Getenv := (\<lambda>k. ''error'')\<rparr>"]
        logLevel_selector [of "world_fg\<lparr>Getenv := (\<lambda>k. ''silent'')\<rparr>"]
        logLevel_selector [of "world_fg\<lparr>Getenv := (\<lambda>k. ''info'')\<rparr>"]
        logLevel_selector [of world_fg]
  by (simp add: world_fg_def)

text \<open>
  Claim C8. A logger made at the silent level has two discarding sinks; at the error level
  only the error sink prints (with the tag ERROR); at the verbose level both print. A sink
  prints exactly when the level is at or above the sink's own level, and a call of a
  discarding sink produces no event at all, while a printing sink writes one line.
\<close>

theorem NewLogger_sinks:
  "NewLogger LogLevelSilent p = \<lparr>Verbosef = DiscardLogf, Errorf = DiscardLogf\<rparr> \<and>
   NewLogger LogLevelError p = \<lparr>Verbosef = DiscardLogf, Errorf = LogPrintf (''ERROR: '' @ p)\<rparr> \<and>
   NewLogger LogLevelVerbose p =
     \<lparr>Verbosef = LogPrintf (''DEBUG: '' @ p), Errorf = LogPrintf (''ERROR: '' @ p)\<rparr> \<and>
   (Verbosef (NewLogger level p) \<noteq> DiscardLogf) = (LogLevelVerbose \<le> level) \<and>
   (Errorf (NewLogger level p) \<noteq> DiscardLogf) = (LogLevelError \<le> level) \<and>
   call_logf DiscardLogf format args = [] \<and>
   call_logf (LogPrintf prefix) format args = [Log_line prefix format args]"
  by (simp add: NewLogger_def Let_def LogLevelSilent_def LogLevelError_def LogLevelVerbose_def)

section \<open>The events of each part of main\<close>

text \<open>
  Each part of main writes events of a few kinds only; a property \<open>P\<close> of those kinds
  holds of every event the part writes.
\<close>

lemma call_logf_all: "(\<And>p. P (Log_line p f a)) \<Longrightarrow> list_all P (call_logf l f a)"
  by (cases l) simp_all

lemma parse_args_all:
  "P Warning_banner \<Longrightarrow> (\<And>f a. P (Printf f a)) \<Longrightarrow> list_all P (fst (parse_args w))"
  by (auto simp: parse_args_def warning_def usage_return_def printUsage_def Let_def
           split: list.splits)

lemma parse_args_Inr: "parse_args w = (ev, Inr (fg, name)) \<Longrightarrow> ev = warning w"
  by (auto simp: parse_args_def usage_return_def Let_def split: if_splits option.splits)

lemma open_tun_all:
  assumes "\<And>n m. P (Call_CreateTUN n m)" "\<And>fd. P (Call_SetNonblock fd)"
    "\<And>fd. P (Call_NewFile fd)" "\<And>f m. P (Call_CreateTUNFromFile f m)"
  shows "list_all P (fst (open_tun w name))"
  using assms by (auto simp: open_tun_def Let_def split: sum.splits option.splits)

lemma read_name_all: "P Call_Name \<Longrightarrow> list_all P (fst (read_name name r))"
  by (auto simp: read_name_def split: sum.splits)

lemma tun_phase_all:
  assumes "\<And>n m. P (Call_CreateTUN n m)" "\<And>fd. P (Call_SetNonblock fd)"
    "\<And>fd. P (Call_NewFile fd)" "\<And>f m. P (Call_CreateTUNFromFile f m)"
    "P Call_Name" "\<And>p f a. P (Log_line p f a)"
  shows "list_all P (fst (tun_phase w fg name))"
proof -
  obtain ev1 r where o: "open_tun w name = (ev1, r)" by (cases "open_tun w name")
  obtain ev2 n' where n: "read_name name r = (ev2, n')" by (cases "read_name name r")
  have 1: "list_all P ev1" using open_tun_all [of P w name] assms o by simp
  have 2: "list_all P ev2" using read_name_all [of P name r] assms n by simp
  show ?thesis
    using 1 2 assms(6) n by (cases r) (simp_all add: tun_phase_def o Let_def call_logf_all)
qed

lemma uapi_phase_all:
  assumes "\<And>n. P (Call_UAPIOpen n)" "\<And>fd. P (Call_NewFile fd)" "\<And>p f a. P (Log_line p f a)"
  shows "list_all P (fst (uapi_phase w ls))"
  using assms
  by (auto simp: uapi_phase_def open_uapi_def Let_def call_logf_all split: sum.splits prod.splits)

lemma run_in_place_no_relaunch: "list_all (\<lambda>e. \<not> is_relaunch e) (trace (run_in_place w ls f))"
  by (auto simp: run_in_place_def Let_def call_logf_all split: option.splits)

lemma main_foreground:
  assumes "parse_args w = (ev1, Inr (fg, name))" "tun_phase w fg name = (ev2, Inr ls)"
    "uapi_phase w ls = (ev3, Inr fileUAPI)" "foreground ls"
  shows "main w = (run_in_place w ls fileUAPI)\<lparr>trace := ev1 @ ev2 @ ev3 @ trace (run_in_place w ls fileUAPI)\<rparr>"
  using assms by (simp add: main_def Let_def)

lemma tun_phase_foreground:
  "tun_phase w fg name = (ev2, Inr ls) \<Longrightarrow>
     foreground ls = (fg \<or> Getenv w ENV_WG_PROCESS_FOREGROUND = ''1'')"
  by (cases fg) (auto simp: tun_phase_def Let_def split: prod.splits sum.splits)

lemma run_in_place_shutdown:
  assumes "UAPIListen w (interfaceName ls) f = None" "Select_result w = Some t"
  shows "status (run_in_place w ls f) = Exited 0 \<and>
    (\<exists>pre. trace (run_in_place w ls f) =
        pre @ [Select t, Call_uapi_Close, Call_device_Close]
            @ call_logf (Verbosef (logger ls)) ''Shutting down'' []
      \<and> list_all (\<lambda>e. \<not> is_teardown e \<and> \<not> is_select e) pre)"
  using assms by (simp add: run_in_place_def Let_def call_logf_all)

section \<open>The accept loop\<close>




lemma accepted_of_pairs:
  "List.map_filter accepted_of (concat (map (\<lambda>c. [Call_Accept (Inr c), Go_IpcHandle c]) cs)) = cs"
  by (induction cs) simp_all






section \<open>Shutdown\<close>

text \<open>
  Claim C1. When main runs in place (the command line, the tunnel device and the
  configuration socket are set up, \<^verbatim>\<open>foreground\<close> is true, the listener is made) and the
  \<^verbatim>\<open>select\<close> of lines 262 to 266 takes a termination event \<open>t\<close> (a signal, an error of the
  accept loop, or the device's fatal signal), main takes exactly that one event, then closes
  the listener, then closes the device, each exactly once, and ends with exit code 0.
\<close>

theorem shutdown_order:
  assumes "parse_args w = (ev1, Inr (fg, name))"
    and "tun_phase w fg name = (ev2, Inr ls)"
    and "uapi_phase w ls = (ev3, Inr fileUAPI)"
    and "foreground ls"
    and "UAPIListen w (interfaceName ls) fileUAPI = None"
    and "Select_result w = Some t"
  shows "status (main w) = Exited 0 \<and>
    filter is_select (trace (main w)) = [Select t] \<and>
    filter is_teardown (trace (main w)) = [Call_uapi_Close, Call_device_Close] \<and>
    (\<exists>pre. trace (main w) =
        pre @ [Select t, Call_uapi_Close, Call_device_Close]
            @ call_logf (Verbosef (logger ls)) ''Shutting down'' []
      \<and> list_all (\<lambda>e. \<not> is_teardown e \<and> \<not> is_select e) pre)"
proof -
  let ?late = "call_logf (Verbosef (logger ls)) ''Shutting down'' []"
  let ?quiet = "\<lambda>e. \<not> is_teardown e \<and> \<not> is_select e"
  from run_in_place_shutdown [OF assms(5,6)]
  obtain pre where st: "status (run_in_place w ls fileUAPI) = Exited 0"
    and tr: "trace (run_in_place w ls fileUAPI) =
        pre @ [Select t, Call_uapi_Close, Call_device_Close] @ ?late"
    and pre: "list_all ?quiet pre"
    by blast
  have 1: "list_all ?quiet ev1" using parse_args_all [of ?quiet w] assms(1) by simp
  have 2: "list_all ?quiet ev2" using tun_phase_all [of ?quiet w fg name] assms(2) by simp
  have 3: "list_all ?quiet ev3" using uapi_phase_all [of ?quiet w ls] assms(3) by simp
  have late: "list_all ?quiet ?late" by (simp add: call_logf_all)
  have m: "trace (main w) = (ev1 @ ev2 @ ev3 @ pre) @ [Select t, Call_uapi_Close, Call_device_Close] @ ?late"
    using main_foreground [OF assms(1-4)] tr by simp
  have q: "list_all ?quiet (ev1 @ ev2 @ ev3 @ pre)" using 1 2 3 pre by simp
  have f1: "filter is_select ev1 = []" "filter is_select ev2 = []" "filter is_select ev3 = []"
    "filter is_select pre = []" "filter is_select ?late = []"
    using 1 2 3 pre late by (auto simp: list_all_iff filter_empty_conv)
  have f2: "filter is_teardown ev1 = []" "filter is_teardown ev2 = []" "filter is_teardown ev3 = []"
    "filter is_teardown pre = []" "filter is_teardown ?late = []"
    using 1 2 3 pre late by (auto simp: list_all_iff filter_empty_conv)
  have s: "status (main w) = Exited 0"
    using main_foreground [OF assms(1-4)] st by simp
  have a: "filter is_select (trace (main w)) = [Select t]"
    by (simp add: m f1)
  have b: "filter is_teardown (trace (main w)) = [Call_uapi_Close, Call_device_Close]"
    by (simp add: m f2)
  show ?thesis using s a b m q by blast
qed

theorem shutdown_order_witness:
  "Select_result world_child = Some Accept_error \<and>
   status (main world_child) = Exited 0 \<and>
   filter is_select (trace (main world_child)) = [Select Accept_error] \<and>
   filter is_teardown (trace (main world_child)) = [Call_uapi_Close, Call_device_Close]"
proof -
  have 1: "parse_args world_child = ([], Inr (False, ''wg0''))"
    by (simp add: main_defs world_child_def world_fg_def locals_child_def locals_fg_def)
  have 2: "tun_phase world_child False ''wg0'' =
      ([Call_SetNonblock 3, Call_NewFile 3, Call_CreateTUNFromFile (NewFile 3) 1420, Call_Name],
       Inr locals_child)"
    by (simp add: main_defs world_child_def world_fg_def locals_child_def locals_fg_def)
  have 3: "uapi_phase world_child locals_child = ([Call_NewFile 4], Inr (NewFile 4))"
    by (simp add: main_defs world_child_def world_fg_def locals_child_def locals_fg_def)
  have 4: "foreground locals_child"
    by (simp add: world_child_def world_fg_def locals_child_def locals_fg_def)
  have 5: "UAPIListen world_child (interfaceName locals_child) (NewFile 4) = None"
    by (simp add: world_child_def world_fg_def locals_child_def locals_fg_def)
  have 6: "Select_result world_child = Some Accept_error"
    by (simp add: world_child_def world_fg_def locals_child_def locals_fg_def)
  from shutdown_order [OF 1 2 3 4 5 6] 6 show ?thesis
    by blast
qed

section \<open>The foreground marker\<close>

lemma daemon_env_marker:
  "last (Env (daemon_attr w ls f)) = ''WG_PROCESS_FOREGROUND=1''"
  by (simp add: daemon_attr_def daemon_env_def ENV_WG_PROCESS_FOREGROUND_def)

lemma main_no_relaunch_when_marked:
  assumes "Getenv w ENV_WG_PROCESS_FOREGROUND = ''1''"
  shows "list_all (\<lambda>e. \<not> is_relaunch e) (trace (main w))"
proof -
  let ?P = "\<lambda>e. \<not> is_relaunch e"
  obtain ev1 r1 where p: "parse_args w = (ev1, r1)" by (cases "parse_args w")
  have 1: "list_all ?P ev1" using parse_args_all [of ?P w] p by simp
  show ?thesis
  proof (cases r1)
    case (Inl st)
    then show ?thesis using p 1 by (simp add: main_def)
  next
    case (Inr a)
    obtain fg name where a: "a = (fg, name)" by (cases a)
    obtain ev2 r2 where t: "tun_phase w fg name = (ev2, r2)" by (cases "tun_phase w fg name")
    have 2: "list_all ?P ev2" using tun_phase_all [of ?P w fg name] t by simp
    show ?thesis
    proof (cases r2)
      case (Inl st)
      then show ?thesis using p Inr a t 1 2 by (simp add: main_def)
    next
      case ls: (Inr ls)
      obtain ev3 r3 where u: "uapi_phase w ls = (ev3, r3)" by (cases "uapi_phase w ls")
      have 3: "list_all ?P ev3" using uapi_phase_all [of ?P w ls] u by simp
      have fgd: "foreground ls" using tun_phase_foreground [of w fg name ev2 ls] t ls assms by simp
      show ?thesis
      proof (cases r3)
        case (Inl st)
        then show ?thesis using p Inr a t ls u 1 2 3 by (simp add: main_def)
      next
        case f: (Inr fileUAPI)
        show ?thesis
          using main_foreground [of w ev1 fg name ev2 ls ev3 fileUAPI] p Inr a t ls u f fgd 1 2 3
            run_in_place_no_relaunch [of w ls fileUAPI]
          by simp
      qed
    qed
  qed
qed

text \<open>
  Whenever the environment variable \<^verbatim>\<open>WG_PROCESS_FOREGROUND\<close> reads "1", main never calls
  \<^verbatim>\<open>os.StartProcess\<close>, whatever the command line is (with or without \<^verbatim>\<open>-f\<close>); and once the
  command line, the tunnel device and the configuration socket are set up, main continues
  with the run-in-place part. The relaunch ends the environment it hands to the child with
  the entry \<^verbatim>\<open>WG_PROCESS_FOREGROUND=1\<close>.
\<close>

lemma marker_one_runs_in_place:
  assumes "Getenv w ENV_WG_PROCESS_FOREGROUND = ''1''"
  shows "list_all (\<lambda>e. \<not> is_relaunch e) (trace (main w)) \<and>
    (\<forall>ev1 fg name ev2 ls ev3 fileUAPI.
       parse_args w = (ev1, Inr (fg, name)) \<and> tun_phase w fg name = (ev2, Inr ls) \<and>
       uapi_phase w ls = (ev3, Inr fileUAPI) \<longrightarrow>
         foreground ls \<and>
         main w = (run_in_place w ls fileUAPI)
                    \<lparr>trace := ev1 @ ev2 @ ev3 @ trace (run_in_place w ls fileUAPI)\<rparr>) \<and>
    (\<forall>w' ls' f'. last (Env (daemon_attr w' ls' f')) = ENV_WG_PROCESS_FOREGROUND @ ''=1'')"
proof -
  have a: "list_all (\<lambda>e. \<not> is_relaunch e) (trace (main w))"
    using assms by (rule main_no_relaunch_when_marked)
  have b: "foreground ls \<and>
         main w = (run_in_place w ls fileUAPI)
                    \<lparr>trace := ev1 @ ev2 @ ev3 @ trace (run_in_place w ls fileUAPI)\<rparr>"
    if "parse_args w = (ev1, Inr (fg, name))" "tun_phase w fg name = (ev2, Inr ls)"
       "uapi_phase w ls = (ev3, Inr fileUAPI)" for ev1 fg name ev2 ls ev3 fileUAPI
  proof -
    have "foreground ls" using tun_phase_foreground [OF that(2)] assms by simp
    then show ?thesis using main_foreground [OF that] by simp
  qed
  have c: "last (Env (daemon_attr w' ls' f')) = ENV_WG_PROCESS_FOREGROUND @ ''=1''" for w' ls' f'
    by (simp add: daemon_env_marker ENV_WG_PROCESS_FOREGROUND_def)
  show ?thesis using a b c by blast
qed

lemma marker_one_runs_in_place_example:
  "Getenv world_child ENV_WG_PROCESS_FOREGROUND = ''1'' \<and>
   Args world_child = [''wireguard-go'', ''wg0''] \<and>
   list_all (\<lambda>e. \<not> is_relaunch e) (trace (main world_child)) \<and>
   foreground locals_child \<and>
   main world_child = (run_in_place world_child locals_child (NewFile 4))
      \<lparr>trace := [] @ [Call_SetNonblock 3, Call_NewFile 3, Call_CreateTUNFromFile (NewFile 3) 1420, Call_Name]
          @ [Call_NewFile 4] @ trace (run_in_place world_child locals_child (NewFile 4))\<rparr>"
proof -
  have 0: "Getenv world_child ENV_WG_PROCESS_FOREGROUND = ''1''"
    by (simp add: world_child_def world_fg_def locals_child_def locals_fg_def ENV_WG_PROCESS_FOREGROUND_def)
  have 1: "parse_args world_child = ([], Inr (False, ''wg0''))"
    by (simp add: main_defs world_child_def world_fg_def locals_child_def locals_fg_def)
  have 2: "tun_phase world_child False ''wg0'' =
      ([Call_SetNonblock 3, Call_NewFile 3, Call_CreateTUNFromFile (NewFile 3) 1420, Call_Name],
       Inr locals_child)"
    by (simp add: main_defs world_child_def world_fg_def locals_child_def locals_fg_def)
  have 3: "uapi_phase world_child locals_child = ([Call_NewFile 4], Inr (NewFile 4))"
    by (simp add: main_defs world_child_def world_fg_def locals_child_def locals_fg_def)
  have 4: "Args world_child = [''wireguard-go'', ''wg0'']"
    by (simp add: world_child_def world_fg_def locals_child_def locals_fg_def)
  from marker_one_runs_in_place [OF 0] 0 1 2 3 4 show ?thesis
    by blast
qed

text \<open>
  When the environment of the parent has no entry for \<^verbatim>\<open>WG_PROCESS_FOREGROUND\<close>, the child
  reads the marker as "1" and so never relaunches.
\<close>

lemma first_entry_append:
  "\<forall>e\<in>set xs. env_key e \<noteq> Some key \<Longrightarrow> first_entry (xs @ ys) key = first_entry ys key"
  by (induction xs) simp_all

lemma child_reads_marker:
  assumes "\<forall>e\<in>set (Environ w). env_key e \<noteq> Some ENV_WG_PROCESS_FOREGROUND"
  shows "Getenv (child_world w (daemon_attr w ls f)) ENV_WG_PROCESS_FOREGROUND = ''1''"
proof -
  have "first_entry (Environ w @ [''WG_TUN_FD=3'', ''WG_UAPI_FD=4'', ''WG_PROCESS_FOREGROUND=1''])
          ''WG_PROCESS_FOREGROUND'' =
        first_entry [''WG_TUN_FD=3'', ''WG_UAPI_FD=4'', ''WG_PROCESS_FOREGROUND=1'']
          ''WG_PROCESS_FOREGROUND''"
    using assms by (intro first_entry_append) (simp add: ENV_WG_PROCESS_FOREGROUND_def)
  also have "\<dots> = ''1''"
    by (simp add: env_key_def env_value_def)
  finally show ?thesis
    by (simp add: child_world_def daemon_attr_def daemon_env_def Getenv_in_def
        ENV_WG_TUN_FD_def ENV_WG_UAPI_FD_def ENV_WG_PROCESS_FOREGROUND_def)
qed

lemma child_runs_in_place:
  assumes "\<forall>e\<in>set (Environ w). env_key e \<noteq> Some ENV_WG_PROCESS_FOREGROUND"
  shows "list_all (\<lambda>e. \<not> is_relaunch e) (trace (main (child_world w (daemon_attr w ls f))))"
  using main_no_relaunch_when_marked [OF child_reads_marker [OF assms]] .

text \<open>
  Claim C2. A process whose foreground marker reads "1" runs in place and never relaunches
  (shown above); in particular a child relaunched by main should never relaunch again, and
  the comment on line 184 says that this is what the appended entry is for. The code misses
  it when the parent's environment already has the marker with another value: lines 181 to
  184 append \<^verbatim>\<open>WG_PROCESS_FOREGROUND=1\<close> to \<^verbatim>\<open>os.Environ()\<close> and leave the earlier entry in
  place, and the child reads the first entry of a key. With \<^verbatim>\<open>WG_PROCESS_FOREGROUND=0\<close> in
  the environment of \<^verbatim>\<open>wireguard-go wg0\<close>, the parent relaunches, and the child, started
  with that environment, reads the marker as "0", adopts the descriptors 3 and 4 and calls
  \<^verbatim>\<open>os.StartProcess\<close> again instead of running in place.
\<close>

theorem child_relaunches_again:
  "Getenv world_marked0 ENV_WG_PROCESS_FOREGROUND = ''0'' \<and>
   trace (main world_marked0) =
     [Warning_banner, Call_CreateTUN ''wg0'' 1420, Call_Name, Call_UAPIOpen ''wg0'',
      Call_Environ, Call_Open ''/dev/null'', Call_Open ''/dev/null'', Call_Open ''/dev/null'',
      Call_File, Call_Executable,
      Call_StartProcess ''/usr/bin/wireguard-go'' [''wireguard-go'', ''wg0''] attr_marked0,
      Call_Release] \<and>
   last (Env attr_marked0) = ''WG_PROCESS_FOREGROUND=1'' \<and>
   Getenv (child_world world_marked0 attr_marked0) ENV_WG_PROCESS_FOREGROUND = ''0'' \<and>
   Getenv (child_world world_marked0 attr_marked0) ENV_WG_TUN_FD = ''3'' \<and>
   Getenv (child_world world_marked0 attr_marked0) ENV_WG_UAPI_FD = ''4'' \<and>
   trace (main (child_world world_marked0 attr_marked0)) =
     [Warning_banner, Call_SetNonblock 3, Call_NewFile 3, Call_CreateTUNFromFile (NewFile 3) 1420,
      Call_Name, Call_NewFile 4,
      Call_Environ, Call_Open ''/dev/null'', Call_Open ''/dev/null'', Call_Open ''/dev/null'',
      Call_File, Call_Executable,
      Call_StartProcess ''/usr/bin/wireguard-go'' [''wireguard-go'', ''wg0''] attr_marked0_child,
      Call_Release] \<and>
   status (main (child_world world_marked0 attr_marked0)) = Exited 0 \<and>
   \<not> list_all (\<lambda>e. \<not> is_relaunch e) (trace (main (child_world world_marked0 attr_marked0)))"
proof -
  have parent: "main world_marked0 =
     \<lparr>trace =
        [Warning_banner, Call_CreateTUN ''wg0'' 1420, Call_Name, Call_UAPIOpen ''wg0'',
         Call_Environ, Call_Open ''/dev/null'', Call_Open ''/dev/null'', Call_Open ''/dev/null'',
         Call_File, Call_Executable,
         Call_StartProcess ''/usr/bin/wireguard-go'' [''wireguard-go'', ''wg0''] attr_marked0,
         Call_Release],
      goroutine = [], status = Exited 0\<rparr>"
    by (simp add: main_defs Getenv_in_def env_key_def env_value_def world_marked0_def world_fg_def
        attr_marked0_def)
  have child: "main (child_world world_marked0 attr_marked0) =
     \<lparr>trace =
        [Warning_banner, Call_SetNonblock 3, Call_NewFile 3, Call_CreateTUNFromFile (NewFile 3) 1420,
         Call_Name, Call_NewFile 4,
         Call_Environ, Call_Open ''/dev/null'', Call_Open ''/dev/null'', Call_Open ''/dev/null'',
         Call_File, Call_Executable,
         Call_StartProcess ''/usr/bin/wireguard-go'' [''wireguard-go'', ''wg0''] attr_marked0_child,
         Call_Release],
      goroutine = [], status = Exited 0\<rparr>"
    by (simp add: main_defs Getenv_in_def Environ_in_def env_key_def env_value_def child_world_def
        world_marked0_def world_fg_def attr_marked0_def attr_marked0_child_def)
  have env: "Getenv world_marked0 ENV_WG_PROCESS_FOREGROUND = ''0''"
    "last (Env attr_marked0) = ''WG_PROCESS_FOREGROUND=1''"
    "Getenv (child_world world_marked0 attr_marked0) ENV_WG_PROCESS_FOREGROUND = ''0''"
    "Getenv (child_world world_marked0 attr_marked0) ENV_WG_TUN_FD = ''3''"
    "Getenv (child_world world_marked0 attr_marked0) ENV_WG_UAPI_FD = ''4''"
    by (simp_all add: Getenv_in_def env_key_def env_value_def child_world_def world_marked0_def
        world_fg_def attr_marked0_def ENV_WG_TUN_FD_def ENV_WG_UAPI_FD_def
        ENV_WG_PROCESS_FOREGROUND_def)
  show ?thesis
    by (simp add: parent child env)
qed

section \<open>The standard streams of the relaunched process\<close>

lemma daemonize_relaunch_attr:
  "Call_StartProcess path args attr \<in> set (fst (daemonize w ls f)) \<Longrightarrow>
     attr = daemon_attr w ls f \<and> args = Args w \<and> Executable w = Inr path"
  by (cases "Logger.Errorf (logger ls)")
     (auto simp: daemonize_def daemon_opens_def Let_def split: sum.splits option.splits if_splits)

lemma not_in_if_no_relaunch:
  "list_all (\<lambda>e. \<not> is_relaunch e) evs \<Longrightarrow> Call_StartProcess path args attr \<notin> set evs"
  by (auto simp: list_all_iff)

lemma main_relaunch_attr:
  assumes "Call_StartProcess path args attr \<in> set (trace (main w))"
  shows "\<exists>ls f. attr = daemon_attr w ls f"
proof -
  let ?P = "\<lambda>e. \<not> is_relaunch e"
  let ?e = "Call_StartProcess path args attr"
  obtain ev1 r1 where p: "parse_args w = (ev1, r1)" by (cases "parse_args w")
  have 1: "?e \<notin> set ev1" using parse_args_all [of ?P w] p by (simp add: not_in_if_no_relaunch)
  show ?thesis
  proof (cases r1)
    case (Inl st)
    then show ?thesis using p 1 assms by (simp add: main_def)
  next
    case (Inr a)
    obtain fg name where a: "a = (fg, name)" by (cases a)
    obtain ev2 r2 where t: "tun_phase w fg name = (ev2, r2)" by (cases "tun_phase w fg name")
    have 2: "?e \<notin> set ev2" using tun_phase_all [of ?P w fg name] t by (simp add: not_in_if_no_relaunch)
    show ?thesis
    proof (cases r2)
      case (Inl st)
      then show ?thesis using p Inr a t 1 2 assms by (simp add: main_def)
    next
      case ls: (Inr ls)
      obtain ev3 r3 where u: "uapi_phase w ls = (ev3, r3)" by (cases "uapi_phase w ls")
      have 3: "?e \<notin> set ev3" using uapi_phase_all [of ?P w ls] u by (simp add: not_in_if_no_relaunch)
      show ?thesis
      proof (cases r3)
        case (Inl st)
        then show ?thesis using p Inr a t ls u 1 2 3 assms by (simp add: main_def)
      next
        case f: (Inr fileUAPI)
        show ?thesis
        proof (cases "foreground ls")
          case True
          have "?e \<notin> set (trace (run_in_place w ls fileUAPI))"
            using run_in_place_no_relaunch [of w ls fileUAPI] by (simp add: not_in_if_no_relaunch)
          then show ?thesis
            using main_foreground [of w ev1 fg name ev2 ls ev3 fileUAPI] p Inr a t ls u f True 1 2 3 assms
            by simp
        next
          case False
          have "main w = \<lparr>trace = ev1 @ ev2 @ ev3 @ fst (daemonize w ls fileUAPI), goroutine = [],
                   status = snd (daemonize w ls fileUAPI)\<rparr>"
            using p Inr a t ls u f False by (simp add: main_def split: prod.splits)
          then have "?e \<in> set (fst (daemonize w ls fileUAPI))"
            using 1 2 3 assms by simp
          then show ?thesis using daemonize_relaunch_attr by blast
        qed
      qed
    qed
  qed
qed

text \<open>
  Claim C4, as the code has it. In every relaunch the child's standard input is the handle
  that opening the null device gave (the error of \<^verbatim>\<open>os.Open\<close> is dropped; the handle is the
  null device whenever the open succeeds). Its standard output and standard error are the
  parent's own streams exactly when \<^verbatim>\<open>LOG_LEVEL\<close> is not empty and the log level is not
  silent, and the handle of the null device otherwise.
\<close>

theorem relaunch_standard_streams:
  assumes "Call_StartProcess path args attr \<in> set (trace (main w))"
  shows "Files attr ! 0 = Open_ignoring_error w os_DevNull \<and>
    Files attr ! 1 =
      (if Getenv w ''LOG_LEVEL'' \<noteq> '''' \<and> logLevel w \<noteq> LogLevelSilent then Some Stdout
       else Open_ignoring_error w os_DevNull) \<and>
    Files attr ! 2 =
      (if Getenv w ''LOG_LEVEL'' \<noteq> '''' \<and> logLevel w \<noteq> LogLevelSilent then Some Stderr
       else Open_ignoring_error w os_DevNull) \<and>
    (Open_error w os_DevNull = None \<longrightarrow> Open_ignoring_error w os_DevNull = Some (Opened os_DevNull))"
proof -
  obtain ls f where "attr = daemon_attr w ls f"
    using main_relaunch_attr [OF assms] by blast
  then show ?thesis
    by (simp add: daemon_attr_def daemon_files_def Open_ignoring_error_def os_Open_def)
qed

theorem relaunch_standard_streams_witness:
  "Call_StartProcess ''/usr/bin/wireguard-go'' [''wireguard-go'', ''wg0'']
     \<lparr>Files = [Some (Opened ''/dev/null''), Some (Opened ''/dev/null''), Some (Opened ''/dev/null''),
               Some (LibFile 5), Some (LibFile 6)],
      Dir = ''.'',
      Env = [''PATH=/usr/bin'', ''WG_TUN_FD=3'', ''WG_UAPI_FD=4'', ''WG_PROCESS_FOREGROUND=1'']\<rparr>
     \<in> set (trace (main (world_bg\<lparr>Getenv := (\<lambda>k. [])\<rparr>))) \<and>
   Getenv (world_bg\<lparr>Getenv := (\<lambda>k. [])\<rparr>) ''LOG_LEVEL'' = [] \<and>
   Open_ignoring_error (world_bg\<lparr>Getenv := (\<lambda>k. [])\<rparr>) os_DevNull = Some (Opened ''/dev/null'')"
proof -
  have 1: "Call_StartProcess ''/usr/bin/wireguard-go'' [''wireguard-go'', ''wg0'']
     \<lparr>Files = [Some (Opened ''/dev/null''), Some (Opened ''/dev/null''), Some (Opened ''/dev/null''),
               Some (LibFile 5), Some (LibFile 6)],
      Dir = ''.'',
      Env = [''PATH=/usr/bin'', ''WG_TUN_FD=3'', ''WG_UAPI_FD=4'', ''WG_PROCESS_FOREGROUND=1'']\<rparr>
     \<in> set (trace (main (world_bg\<lparr>Getenv := (\<lambda>k. [])\<rparr>)))"
    by (simp add: main_defs world_bg_def world_fg_def)
  from relaunch_standard_streams [OF 1] 1 show ?thesis
    by (simp add: main_defs world_bg_def world_fg_def)
qed

text \<open>
  The claim as stated fails: with \<^verbatim>\<open>LOG_LEVEL=error\<close> the level is the error level, not the
  verbose one, and the child still gets the parent's standard output and standard error.
\<close>

theorem relaunch_streams_counterexample:
  "Getenv world_bg ''LOG_LEVEL'' = ''error'' \<and> logLevel world_bg = LogLevelError \<and>
   logLevel world_bg \<noteq> LogLevelVerbose \<and>
   Call_StartProcess ''/usr/bin/wireguard-go'' [''wireguard-go'', ''wg0'']
     \<lparr>Files = [Some (Opened ''/dev/null''), Some Stdout, Some Stderr, Some (LibFile 5), Some (LibFile 6)],
      Dir = ''.'',
      Env = [''PATH=/usr/bin'', ''WG_TUN_FD=3'', ''WG_UAPI_FD=4'', ''WG_PROCESS_FOREGROUND=1'']\<rparr>
     \<in> set (trace (main world_bg))"
  by (simp add: main_defs world_bg_def world_fg_def)

section \<open>Inherited descriptors\<close>

lemma char_by_code: "(of_char c :: nat) = of_char d \<Longrightarrow> c = d"
  by simp

lemma digit_chars:
  assumes "48 \<le> (of_char c :: nat)" "(of_char c :: nat) \<le> 57"
  shows "c \<in> set ''0123456789''"
proof -
  have "(of_char c :: nat) = 48 \<or> (of_char c :: nat) = 49 \<or> (of_char c :: nat) = 50 \<or>
      (of_char c :: nat) = 51 \<or> (of_char c :: nat) = 52 \<or> (of_char c :: nat) = 53 \<or>
      (of_char c :: nat) = 54 \<or> (of_char c :: nat) = 55 \<or> (of_char c :: nat) = 56 \<or>
      (of_char c :: nat) = 57"
    using assms by arith
  then have "c = CHR ''0'' \<or> c = CHR ''1'' \<or> c = CHR ''2'' \<or> c = CHR ''3'' \<or> c = CHR ''4'' \<or>
      c = CHR ''5'' \<or> c = CHR ''6'' \<or> c = CHR ''7'' \<or> c = CHR ''8'' \<or> c = CHR ''9''"
    by (elim disjE) (simp_all add: char_by_code)
  then show ?thesis by auto
qed

lemma digit_of_None_iff: "digit_of c = None \<longleftrightarrow> c \<notin> set ''0123456789''"
proof (cases "48 \<le> (of_char c :: nat) \<and> (of_char c :: nat) \<le> 57")
  case True
  then have "c \<in> set ''0123456789''" using digit_chars by blast
  then show ?thesis using True by (simp add: digit_of_def)
next
  case False
  then have "c \<notin> set ''0123456789''" by auto
  then show ?thesis using False by (simp add: digit_of_def Let_def)
qed

lemma parse_digits_non_digit:
  "\<exists>c\<in>set s. digit_of c = None \<Longrightarrow> \<exists>err. parse_digits n s = Inl err"
  by (induction s arbitrary: n) (auto simp: Let_def split: option.splits)

lemma ParseUint_malformed: "\<not> well_formed_uint s \<Longrightarrow> \<exists>err. ParseUint s = Inl err"
proof (cases "s = []")
  case True
  then show ?thesis by (simp add: ParseUint_def)
next
  case False
  assume "\<not> well_formed_uint s"
  with False have "\<exists>c\<in>set s. digit_of c = None"
    by (auto simp: well_formed_uint_def list_all_iff digit_of_None_iff)
  then show ?thesis using False parse_digits_non_digit by (simp add: ParseUint_def)
qed

lemma parse_digits_Inr_digits:
  "parse_digits n s = Inr fd \<Longrightarrow> n \<le> maxVal32 \<Longrightarrow>
     (\<forall>c\<in>set s. digit_of c \<noteq> None) \<and> fd \<le> maxVal32"
proof (induction s arbitrary: n)
  case Nil
  then show ?case by simp
next
  case (Cons c s)
  from Cons.prems(1) obtain d where d: "digit_of c = Some d"
    by (cases "digit_of c") simp_all
  with Cons.prems(1) have le: "n * 10 + d \<le> maxVal32" and r: "parse_digits (n * 10 + d) s = Inr fd"
    by (simp_all add: Let_def split: if_splits)
  from Cons.IH [OF r le] d show ?case by simp
qed

lemma ParseUint_Inr:
  "ParseUint s = Inr fd \<Longrightarrow> well_formed_uint s \<and> fd < 2 ^ 32"
proof -
  assume a: "ParseUint s = Inr fd"
  then have ne: "s \<noteq> []" by (auto simp: ParseUint_def)
  with a have "parse_digits 0 s = Inr fd" by (simp add: ParseUint_def)
  from parse_digits_Inr_digits [OF this]
  have "(\<forall>c\<in>set s. digit_of c \<noteq> None)" "fd \<le> maxVal32" by auto
  then show ?thesis using ne
    by (auto simp: well_formed_uint_def list_all_iff digit_of_None_iff maxVal32_def)
qed

lemma open_tun_malformed:
  assumes "Getenv w ENV_WG_TUN_FD \<noteq> []" "\<not> well_formed_uint (Getenv w ENV_WG_TUN_FD)"
  shows "\<exists>err. open_tun w name = ([], Inl err)"
proof -
  obtain err where "ParseUint (Getenv w ENV_WG_TUN_FD) = Inl err"
    using ParseUint_malformed [OF assms(2)] by blast
  then show ?thesis using assms(1) by (simp add: open_tun_def)
qed

lemma open_uapi_malformed:
  assumes "Getenv w ENV_WG_UAPI_FD \<noteq> []" "\<not> well_formed_uint (Getenv w ENV_WG_UAPI_FD)"
  shows "\<exists>err. open_uapi w name = ([], Inl err)"
proof -
  obtain err where "ParseUint (Getenv w ENV_WG_UAPI_FD) = Inl err"
    using ParseUint_malformed [OF assms(2)] by blast
  then show ?thesis using assms(1) by (simp add: open_uapi_def)
qed

lemma tun_phase_failed:
  "tun_phase w fg name = (ev2, Inl st) \<Longrightarrow> st = Exited ExitSetupFailed"
  by (auto simp: tun_phase_def Let_def split: prod.splits sum.splits)

lemma tun_phase_open_error:
  assumes "open_tun w name = (ev, Inl err)"
  shows "tun_phase w fg name =
    (ev @ call_logf (Verbosef (NewLogger (logLevel w) (''('' @ name @ '') '')))
            ''Starting wireguard-go version %s'' [ArgS (Version w)]
        @ call_logf (Errorf (NewLogger (logLevel w) (''('' @ name @ '') '')))
            ''Failed to create TUN device: %v'' [ArgE err],
     Inl (Exited ExitSetupFailed))"
  using assms by (simp add: tun_phase_def read_name_def Let_def)

lemma open_uapi_no_SetNonblock: "Call_SetNonblock fd \<notin> set (fst (open_uapi w name))"
  by (auto simp: open_uapi_def Let_def split: sum.splits)

text \<open>
  Claim C5. Let the command line be accepted. If the tunnel descriptor \<^verbatim>\<open>WG_TUN_FD\<close> is
  supplied (not empty) and is not a well-formed unsigned integer, the resolver returns an
  error without any call on a descriptor or device, main writes nothing but its log lines
  (the error among them, when the error sink prints) and the process exits with code 1.
  The same holds for the socket descriptor \<^verbatim>\<open>WG_UAPI_FD\<close>: the resolver returns an error
  with no call at all, the process exits with code 1, and when the tunnel device had been
  set up main only adds the error line to what that had written.
\<close>

theorem malformed_descriptor_fails:
  assumes "parse_args w = (ev1, Inr (fg, name))"
  shows
   "ExitSetupFailed = 1 \<and>
    (Getenv w ENV_WG_TUN_FD \<noteq> [] \<and> \<not> well_formed_uint (Getenv w ENV_WG_TUN_FD) \<longrightarrow>
       (\<exists>err. open_tun w name = ([], Inl err) \<and>
          trace (main w) =
            ev1 @ call_logf (Verbosef (NewLogger (logLevel w) (''('' @ name @ '') '')))
                    ''Starting wireguard-go version %s'' [ArgS (Version w)]
                @ call_logf (Errorf (NewLogger (logLevel w) (''('' @ name @ '') '')))
                    ''Failed to create TUN device: %v'' [ArgE err]) \<and>
       status (main w) = Exited ExitSetupFailed) \<and>
    (Getenv w ENV_WG_UAPI_FD \<noteq> [] \<and> \<not> well_formed_uint (Getenv w ENV_WG_UAPI_FD) \<longrightarrow>
       (\<forall>n. \<exists>err. open_uapi w n = ([], Inl err)) \<and>
       (\<forall>ev2 ls. tun_phase w fg name = (ev2, Inr ls) \<longrightarrow>
          (\<exists>err. trace (main w) =
             ev1 @ ev2 @ call_logf (Errorf (logger ls)) ''UAPI listen error: %v'' [ArgE err])) \<and>
       status (main w) = Exited ExitSetupFailed)"
proof (intro conjI impI)
  show "ExitSetupFailed = 1" by (simp add: ExitSetupFailed_def)
next
  assume t: "Getenv w ENV_WG_TUN_FD \<noteq> [] \<and> \<not> well_formed_uint (Getenv w ENV_WG_TUN_FD)"
  then obtain err where o: "open_tun w name = ([], Inl err)"
    using open_tun_malformed by blast
  have m: "main w = \<lparr>trace = ev1 @ fst (tun_phase w fg name), goroutine = [],
      status = Exited ExitSetupFailed\<rparr>"
    using assms tun_phase_open_error [OF o, of fg] by (simp add: main_def)
  show "\<exists>err. open_tun w name = ([], Inl err) \<and>
          trace (main w) =
            ev1 @ call_logf (Verbosef (NewLogger (logLevel w) (''('' @ name @ '') '')))
                    ''Starting wireguard-go version %s'' [ArgS (Version w)]
                @ call_logf (Errorf (NewLogger (logLevel w) (''('' @ name @ '') '')))
                    ''Failed to create TUN device: %v'' [ArgE err]"
    using o m tun_phase_open_error [OF o, of fg] by auto
  show "status (main w) = Exited ExitSetupFailed" using m by simp
next
  assume u: "Getenv w ENV_WG_UAPI_FD \<noteq> [] \<and> \<not> well_formed_uint (Getenv w ENV_WG_UAPI_FD)"
  show a: "\<forall>n. \<exists>err. open_uapi w n = ([], Inl err)"
    using u open_uapi_malformed by blast
  have b: "\<exists>err. main w = \<lparr>trace = ev1 @ ev2 @ call_logf (Errorf (logger ls)) ''UAPI listen error: %v'' [ArgE err],
        goroutine = [], status = Exited ExitSetupFailed\<rparr>"
    if "tun_phase w fg name = (ev2, Inr ls)" for ev2 ls
  proof -
    obtain err where "open_uapi w (interfaceName ls) = ([], Inl err)" using a by blast
    then have "uapi_phase w ls =
        (call_logf (Errorf (logger ls)) ''UAPI listen error: %v'' [ArgE err], Inl (Exited ExitSetupFailed))"
      by (simp add: uapi_phase_def)
    then have "main w = \<lparr>trace = ev1 @ ev2 @ call_logf (Errorf (logger ls)) ''UAPI listen error: %v'' [ArgE err],
        goroutine = [], status = Exited ExitSetupFailed\<rparr>"
      using assms that by (simp add: main_def)
    then show ?thesis by blast
  qed
  show "\<forall>ev2 ls. tun_phase w fg name = (ev2, Inr ls) \<longrightarrow>
          (\<exists>err. trace (main w) =
             ev1 @ ev2 @ call_logf (Errorf (logger ls)) ''UAPI listen error: %v'' [ArgE err])"
  proof (intro allI impI)
    fix ev2 ls assume "tun_phase w fg name = (ev2, Inr ls)"
    from b [OF this] obtain err where "main w = \<lparr>trace = ev1 @ ev2 @ call_logf (Errorf (logger ls)) ''UAPI listen error: %v'' [ArgE err],
        goroutine = [], status = Exited ExitSetupFailed\<rparr>" by blast
    then have "trace (main w) = ev1 @ ev2 @ call_logf (Errorf (logger ls)) ''UAPI listen error: %v'' [ArgE err]"
      by simp
    then show "\<exists>err. trace (main w) =
             ev1 @ ev2 @ call_logf (Errorf (logger ls)) ''UAPI listen error: %v'' [ArgE err]" by blast
  qed
  show "status (main w) = Exited ExitSetupFailed"
  proof (cases "tun_phase w fg name")
    case (Pair ev2 r2)
    show ?thesis
    proof (cases r2)
      case (Inl st)
      then have "st = Exited ExitSetupFailed" using Pair tun_phase_failed by blast
      then show ?thesis using assms Pair Inl by (simp add: main_def)
    next
      case (Inr ls)
      then show ?thesis using b [of ev2 ls] Pair by auto
    qed
  qed
qed

theorem malformed_descriptor_fails_witness:
  "Getenv world_bad_fd ENV_WG_TUN_FD = ''abc'' \<and>
   open_tun world_bad_fd ''wg0'' = ([], Inl ErrSyntax) \<and>
   trace (main world_bad_fd) =
     [Warning_banner, Log_line ''ERROR: (wg0) '' ''Failed to create TUN device: %v'' [ArgE ErrSyntax]] \<and>
   status (main world_bad_fd) = Exited 1 \<and>
   Getenv world_bad_uapi ENV_WG_UAPI_FD = ''4x'' \<and>
   open_uapi world_bad_uapi ''wg0'' = ([], Inl ErrSyntax) \<and>
   trace (main world_bad_uapi) =
     [Warning_banner, Call_CreateTUN ''wg0'' 1420, Call_Name,
      Log_line ''ERROR: (wg0) '' ''UAPI listen error: %v'' [ArgE ErrSyntax]] \<and>
   status (main world_bad_uapi) = Exited 1"
proof -
  have 1: "parse_args world_bad_fd = ([Warning_banner], Inr (True, ''wg0''))"
    "parse_args world_bad_uapi = ([Warning_banner], Inr (True, ''wg0''))"
    by (simp_all add: main_defs world_bad_fd_def world_bad_uapi_def world_fg_def locals_fg_def)
  have 2: "Getenv world_bad_fd ENV_WG_TUN_FD = ''abc''" "Getenv world_bad_uapi ENV_WG_UAPI_FD = ''4x''"
    by (simp_all add: main_defs world_bad_fd_def world_bad_uapi_def world_fg_def locals_fg_def)
  have 3: "\<not> well_formed_uint ''abc''" "\<not> well_formed_uint ''4x''"
    by (simp_all add: well_formed_uint_def)
  have 4: "open_tun world_bad_fd ''wg0'' = ([], Inl ErrSyntax)"
    "open_uapi world_bad_uapi ''wg0'' = ([], Inl ErrSyntax)"
    by (simp_all add: main_defs world_bad_fd_def world_bad_uapi_def world_fg_def locals_fg_def)
  have 5: "logLevel world_bad_fd = LogLevelError"
    by (simp add: main_defs world_bad_fd_def world_bad_uapi_def world_fg_def locals_fg_def)
  have 6: "tun_phase world_bad_uapi True ''wg0'' = ([Call_CreateTUN ''wg0'' 1420, Call_Name], Inr locals_fg)"
    by (simp add: main_defs world_bad_fd_def world_bad_uapi_def world_fg_def locals_fg_def)
  have a: "trace (main world_bad_fd) =
     [Warning_banner, Log_line ''ERROR: (wg0) '' ''Failed to create TUN device: %v'' [ArgE ErrSyntax]] \<and>
     status (main world_bad_fd) = Exited 1"
    using malformed_descriptor_fails [OF 1(1)] 2 3 4 5
    by (simp add: NewLogger_def LogLevelError_def LogLevelVerbose_def)
  have e: "trace (main world_bad_uapi) =
     [Warning_banner, Call_CreateTUN ''wg0'' 1420, Call_Name,
      Log_line ''ERROR: (wg0) '' ''UAPI listen error: %v'' [ArgE ErrSyntax]]"
    by (simp add: main_defs world_bad_fd_def world_bad_uapi_def world_fg_def locals_fg_def)
  have b: "status (main world_bad_uapi) = Exited 1"
    using malformed_descriptor_fails [OF 1(2)] 2 3 by simp
  show ?thesis using a b e 2 4 by blast
qed

text \<open>
  Claim C3, as the code has it. A tunnel descriptor that parses is first marked
  non-blocking; only when that call succeeds is it wrapped as a file and handed to
  \<^verbatim>\<open>tun.CreateTUNFromFile\<close>, and when it fails the error is returned and nothing is wrapped.
  A socket descriptor that parses is wrapped as a file directly: the resolver of the
  configuration socket never calls \<^verbatim>\<open>unix.SetNonblock\<close>.
\<close>

theorem adopt_descriptors:
  "(ParseUint (Getenv w ENV_WG_TUN_FD) = Inr fd \<longrightarrow>
      (SetNonblock w fd = None \<longrightarrow>
         open_tun w name =
           ([Call_SetNonblock fd, Call_NewFile fd, Call_CreateTUNFromFile (NewFile fd) (DefaultMTU w)],
            CreateTUNFromFile w (NewFile fd) (DefaultMTU w))) \<and>
      (\<forall>err. SetNonblock w fd = Some err \<longrightarrow> open_tun w name = ([Call_SetNonblock fd], Inl err))) \<and>
   (ParseUint (Getenv w ENV_WG_UAPI_FD) = Inr fd' \<longrightarrow>
      open_uapi w name' = ([Call_NewFile fd'], Inr (NewFile fd'))) \<and>
   (\<forall>d. Call_SetNonblock d \<notin> set (fst (open_uapi w name')))"
proof -
  have ne: "ParseUint s = Inr x \<Longrightarrow> s \<noteq> []" for s x
    by (auto simp: ParseUint_def)
  have a: "\<forall>d. Call_SetNonblock d \<notin> set (fst (open_uapi w name'))"
    by (simp add: open_uapi_no_SetNonblock)
  have b: "ParseUint (Getenv w ENV_WG_UAPI_FD) = Inr fd' \<longrightarrow>
      open_uapi w name' = ([Call_NewFile fd'], Inr (NewFile fd'))"
    using ne [of "Getenv w ENV_WG_UAPI_FD" fd'] by (auto simp: open_uapi_def Let_def)
  have c: "ParseUint (Getenv w ENV_WG_TUN_FD) = Inr fd \<longrightarrow>
      (SetNonblock w fd = None \<longrightarrow>
         open_tun w name =
           ([Call_SetNonblock fd, Call_NewFile fd, Call_CreateTUNFromFile (NewFile fd) (DefaultMTU w)],
            CreateTUNFromFile w (NewFile fd) (DefaultMTU w))) \<and>
      (\<forall>err. SetNonblock w fd = Some err \<longrightarrow> open_tun w name = ([Call_SetNonblock fd], Inl err))"
    using ne [of "Getenv w ENV_WG_TUN_FD" fd] by (auto simp: open_tun_def Let_def)
  show ?thesis using a b c by blast
qed

theorem adopt_descriptors_witness:
  "ParseUint (Getenv world_child ENV_WG_TUN_FD) = Inr 3 \<and>
   SetNonblock world_child 3 = None \<and>
   open_tun world_child ''wg0'' =
     ([Call_SetNonblock 3, Call_NewFile 3, Call_CreateTUNFromFile (NewFile 3) 1420],
      Inr \<lparr>dev_Name = Inr ''wg0'', dev_File = Some (NewFile 3)\<rparr>) \<and>
   ParseUint (Getenv world_child ENV_WG_UAPI_FD) = Inr 4 \<and>
   open_uapi world_child ''wg0'' = ([Call_NewFile 4], Inr (NewFile 4)) \<and>
   open_tun (world_child\<lparr>SetNonblock := (\<lambda>fd. Some (OSError ''bad file descriptor''))\<rparr>) ''wg0'' =
     ([Call_SetNonblock 3], Inl (OSError ''bad file descriptor''))"
proof -
  have 1: "ParseUint (Getenv world_child ENV_WG_TUN_FD) = Inr 3"
    "ParseUint (Getenv world_child ENV_WG_UAPI_FD) = Inr 4"
    "ParseUint (Getenv (world_child\<lparr>SetNonblock := (\<lambda>fd. Some (OSError ''bad file descriptor''))\<rparr>) ENV_WG_TUN_FD) = Inr 3"
    by (simp_all add: main_defs world_child_def world_fg_def)
  have 2: "SetNonblock world_child 3 = None"
    "SetNonblock (world_child\<lparr>SetNonblock := (\<lambda>fd. Some (OSError ''bad file descriptor''))\<rparr>) 3
       = Some (OSError ''bad file descriptor'')"
    by (simp_all add: world_child_def world_fg_def)
  have 3: "CreateTUNFromFile world_child (NewFile 3) (DefaultMTU world_child) =
      Inr \<lparr>dev_Name = Inr ''wg0'', dev_File = Some (NewFile 3)\<rparr>" "DefaultMTU world_child = 1420"
    by (simp_all add: world_child_def world_fg_def)
  from adopt_descriptors [of world_child 3 "''wg0''" 4 "''wg0''"]
       adopt_descriptors [of "world_child\<lparr>SetNonblock := (\<lambda>fd. Some (OSError ''bad file descriptor''))\<rparr>" 3 "''wg0''" 4 "''wg0''"]
       1 2 3
  show ?thesis by simp
qed

text \<open>
  The claim as stated fails for the socket descriptor: with \<^verbatim>\<open>WG_UAPI_FD=4\<close> the
  descriptor 4 is wrapped and is never marked non-blocking.
\<close>

theorem adopt_nonblocking_counterexample:
  "ParseUint (Getenv world_child ENV_WG_UAPI_FD) = Inr 4 \<and>
   open_uapi world_child ''wg0'' = ([Call_NewFile 4], Inr (NewFile 4)) \<and>
   Call_NewFile 4 \<in> set (trace (main world_child)) \<and>
   Call_SetNonblock 4 \<notin> set (trace (main world_child))"
  by (simp add: main_defs world_child_def world_fg_def)

section \<open>The name of the interface\<close>

lemma tun_phase_ok:
  assumes "open_tun w name = (ev, Inr dev)"
  shows "tun_phase w fg name =
    (ev @ [Call_Name]
        @ call_logf (Verbosef (NewLogger (logLevel w) (''('' @ snd (read_name name (Inr dev)) @ '') '')))
            ''Starting wireguard-go version %s'' [ArgS (Version w)],
     Inr \<lparr>foreground = (if \<not> fg then Getenv w ENV_WG_PROCESS_FOREGROUND = ''1'' else fg),
          interfaceName = snd (read_name name (Inr dev)),
          tdev = dev,
          logger = NewLogger (logLevel w) (''('' @ snd (read_name name (Inr dev)) @ '') '')\<rparr>)"
  using assms by (cases "dev_Name dev") (simp_all add: tun_phase_def read_name_def Let_def)

lemma tun_phase_Inr_open:
  "tun_phase w fg name = (ev2, Inr ls) \<Longrightarrow> \<exists>ev. open_tun w name = (ev, Inr (tdev ls))"
  by (auto simp: tun_phase_def Let_def split: prod.splits sum.splits)

lemma names_ok_logger:
  "list_all (names_ok r) (call_logf (Verbosef (NewLogger lvl (''('' @ r @ '') ''))) f a) \<and>
   list_all (names_ok r) (call_logf (Errorf (NewLogger lvl (''('' @ r @ '') ''))) f a)"
  by (simp add: NewLogger_def Let_def)

lemma names_ok_others:
  "list_all (names_ok r) (warning w)"
  "list_all (names_ok r) (fst (open_tun w name))"
  "list_all (names_ok r) (daemon_opens w)"
  by (auto simp: warning_def open_tun_def daemon_opens_def Let_def split: sum.splits option.splits)

lemma uapi_phase_names_ok:
  assumes "logger ls = NewLogger lvl (''('' @ interfaceName ls @ '') '')"
  shows "list_all (names_ok (interfaceName ls)) (fst (uapi_phase w ls))"
  using names_ok_logger [of "interfaceName ls" lvl] assms
  by (auto simp: uapi_phase_def open_uapi_def Let_def split: sum.splits prod.splits)

lemma daemonize_names_ok:
  assumes "logger ls = NewLogger lvl (''('' @ interfaceName ls @ '') '')"
  shows "list_all (names_ok (interfaceName ls)) (fst (daemonize w ls f))"
  using names_ok_logger [of "interfaceName ls" lvl] assms names_ok_others(3) [of "interfaceName ls" w]
  by (auto simp: daemonize_def Let_def split: sum.splits option.splits)

lemma run_in_place_names_ok:
  assumes "logger ls = NewLogger lvl (''('' @ interfaceName ls @ '') '')"
  shows "list_all (names_ok (interfaceName ls)) (trace (run_in_place w ls f))"
  using names_ok_logger [of "interfaceName ls" lvl] assms
  by (auto simp: run_in_place_def Let_def split: option.splits)

lemma main_names_ok:
  assumes "parse_args w = (ev1, Inr (fg, name))" "open_tun w name = (ev, Inr dev)"
  shows "list_all (names_ok (snd (read_name name (Inr dev)))) (trace (main w))"
proof -
  let ?r = "snd (read_name name (Inr dev))"
  let ?lg = "NewLogger (logLevel w) (''('' @ ?r @ '') '')"
  let ?ls = "\<lparr>foreground = (if \<not> fg then Getenv w ENV_WG_PROCESS_FOREGROUND = ''1'' else fg),
          interfaceName = ?r, tdev = dev, logger = ?lg\<rparr>"
  let ?ev2 = "ev @ [Call_Name] @ call_logf (Verbosef ?lg) ''Starting wireguard-go version %s'' [ArgS (Version w)]"
  have t: "tun_phase w fg name = (?ev2, Inr ?ls)"
    using tun_phase_ok [OF assms(2)] by simp
  have lg: "logger ?ls = NewLogger (logLevel w) (''('' @ interfaceName ?ls @ '') '')" by simp
  have 1: "list_all (names_ok ?r) ev1"
    using parse_args_Inr [OF assms(1)] names_ok_others(1) by simp
  have 2: "list_all (names_ok ?r) ?ev2"
    using names_ok_others(2) [of ?r w name] assms(2) names_ok_logger [of ?r "logLevel w"] by simp
  obtain ev3 r3 where u: "uapi_phase w ?ls = (ev3, r3)" by (cases "uapi_phase w ?ls")
  have 3: "list_all (names_ok ?r) ev3"
    using uapi_phase_names_ok [OF lg, of w] u by simp
  show ?thesis
  proof (cases r3)
    case (Inl st)
    have "main w = \<lparr>trace = ev1 @ ?ev2 @ ev3, goroutine = [], status = st\<rparr>"
      using assms(1) t u Inl by (simp add: main_def)
    then show ?thesis using 1 2 3 by simp
  next
    case (Inr fileUAPI)
    show ?thesis
    proof (cases "foreground ?ls")
      case True
      have "list_all (names_ok ?r) (trace (run_in_place w ?ls fileUAPI))"
        using run_in_place_names_ok [OF lg, of w fileUAPI] by simp
      then show ?thesis
        using main_foreground [OF assms(1) t _ True, of ev3 fileUAPI] u Inr 1 2 3 by simp
    next
      case False
      have d: "list_all (names_ok ?r) (fst (daemonize w ?ls fileUAPI))"
        using daemonize_names_ok [OF lg, of w fileUAPI] by simp
      have "main w = \<lparr>trace = ev1 @ ?ev2 @ ev3 @ fst (daemonize w ?ls fileUAPI), goroutine = [],
                   status = snd (daemonize w ?ls fileUAPI)\<rparr>"
        using assms(1) t u Inr False by (simp add: main_def split: prod.splits)
      then show ?thesis using 1 2 3 d by simp
    qed
  qed
qed

lemma main_trace_after_tun:
  assumes "parse_args w = (ev1, Inr (fg, name))" "tun_phase w fg name = (ev2, Inr ls)"
  shows "\<exists>rest. trace (main w) = ev1 @ ev2 @ fst (uapi_phase w ls) @ rest"
proof -
  obtain ev3 r3 where u: "uapi_phase w ls = (ev3, r3)" by (cases "uapi_phase w ls")
  show ?thesis
  proof (cases r3)
    case (Inl st)
    then show ?thesis using assms u by (simp add: main_def)
  next
    case (Inr fileUAPI)
    then show ?thesis using assms u
      by (cases "foreground ls") (simp_all add: main_def Let_def split: prod.splits)
  qed
qed

lemma uapi_phase_by_name:
  assumes "Getenv w ENV_WG_UAPI_FD = []"
  shows "open_uapi w n = ([Call_UAPIOpen n], UAPIOpen w n)"
    and "\<exists>more. fst (uapi_phase w ls) = Call_UAPIOpen (interfaceName ls) # more"
  using assms by (auto simp: uapi_phase_def open_uapi_def split: sum.splits)

lemma main_binds_by_name:
  assumes "parse_args w = (ev1, Inr (fg, name))" "tun_phase w fg name = (ev2, Inr ls)"
    "Getenv w ENV_WG_UAPI_FD = []"
  shows "Call_UAPIOpen (interfaceName ls) \<in> set (trace (main w))"
proof -
  obtain rest where "trace (main w) = ev1 @ ev2 @ fst (uapi_phase w ls) @ rest"
    using main_trace_after_tun [OF assms(1,2)] by blast
  moreover obtain more where "fst (uapi_phase w ls) = Call_UAPIOpen (interfaceName ls) # more"
    using uapi_phase_by_name(2) [OF assms(3)] by blast
  ultimately show ?thesis by simp
qed

lemma verbose_line_not_error:
  "list_all (\<lambda>e. \<not> is_error_line e) (call_logf (Verbosef (NewLogger lvl p)) f a)"
  by (simp add: NewLogger_def Let_def)

text \<open>
  Claim C6. Let the command line be accepted with the interface name \<open>name\<close>, let no tunnel
  descriptor be supplied, let \<^verbatim>\<open>tun.CreateTUN\<close> succeed and let the device report the name
  \<open>real\<close>. Then the resolver creates the device under the requested name (one call of
  \<^verbatim>\<open>tun.CreateTUN name\<close>), main reads the name back, and from then on main uses \<open>real\<close>: the
  logger is made with the label \<open>(real)\<close>, the configuration socket is opened by the name
  \<open>real\<close> when no socket descriptor is supplied, and in the whole run every log line
  carries the label \<open>(real)\<close> and every call that binds or listens on the configuration
  socket is given \<open>real\<close>.
\<close>

theorem fresh_tunnel_uses_actual_name:
  assumes "parse_args w = (ev1, Inr (fg, name))"
    and "Getenv w ENV_WG_TUN_FD = []"
    and "CreateTUN w name (DefaultMTU w) = Inr dev"
    and "dev_Name dev = Inr real"
  shows "open_tun w name = ([Call_CreateTUN name (DefaultMTU w)], Inr dev) \<and>
    (\<exists>ls. tun_phase w fg name =
            ([Call_CreateTUN name (DefaultMTU w), Call_Name]
               @ call_logf (Verbosef (logger ls)) ''Starting wireguard-go version %s'' [ArgS (Version w)],
             Inr ls) \<and>
          interfaceName ls = real \<and> tdev ls = dev \<and>
          logger ls = NewLogger (logLevel w) (''('' @ real @ '') '') \<and>
          (Getenv w ENV_WG_UAPI_FD = [] \<longrightarrow>
             open_uapi w (interfaceName ls) = ([Call_UAPIOpen real], UAPIOpen w real) \<and>
             Call_UAPIOpen real \<in> set (trace (main w)))) \<and>
    list_all (names_ok real) (trace (main w))"
proof -
  have o: "open_tun w name = ([Call_CreateTUN name (DefaultMTU w)], Inr dev)"
    using assms(2,3) by (simp add: open_tun_def)
  have r: "snd (read_name name (Inr dev)) = real"
    using assms(4) by (simp add: read_name_def)
  let ?ls = "\<lparr>foreground = (if \<not> fg then Getenv w ENV_WG_PROCESS_FOREGROUND = ''1'' else fg),
          interfaceName = real, tdev = dev,
          logger = NewLogger (logLevel w) (''('' @ real @ '') '')\<rparr>"
  have t: "tun_phase w fg name =
            ([Call_CreateTUN name (DefaultMTU w), Call_Name]
               @ call_logf (Verbosef (logger ?ls)) ''Starting wireguard-go version %s'' [ArgS (Version w)],
             Inr ?ls)"
    using tun_phase_ok [OF o, of fg] r by simp
  have u: "Getenv w ENV_WG_UAPI_FD = [] \<longrightarrow>
             open_uapi w (interfaceName ?ls) = ([Call_UAPIOpen real], UAPIOpen w real) \<and>
             Call_UAPIOpen real \<in> set (trace (main w))"
    using uapi_phase_by_name(1) [of w real] main_binds_by_name [OF assms(1) t] by simp
  have n: "list_all (names_ok real) (trace (main w))"
    using main_names_ok [OF assms(1) o] r by simp
  have "tun_phase w fg name =
            ([Call_CreateTUN name (DefaultMTU w), Call_Name]
               @ call_logf (Verbosef (logger ?ls)) ''Starting wireguard-go version %s'' [ArgS (Version w)],
             Inr ?ls) \<and>
          interfaceName ?ls = real \<and> tdev ?ls = dev \<and>
          logger ?ls = NewLogger (logLevel w) (''('' @ real @ '') '') \<and>
          (Getenv w ENV_WG_UAPI_FD = [] \<longrightarrow>
             open_uapi w (interfaceName ?ls) = ([Call_UAPIOpen real], UAPIOpen w real) \<and>
             Call_UAPIOpen real \<in> set (trace (main w)))"
    using t u by simp
  then show ?thesis using o n by blast
qed

theorem fresh_tunnel_uses_actual_name_witness:
  "Args world_renamed = [''wireguard-go'', ''-f'', ''utun''] \<and>
   open_tun world_renamed ''utun'' =
     ([Call_CreateTUN ''utun'' 1420], Inr \<lparr>dev_Name = Inr ''utun3'', dev_File = Some (LibFile 5)\<rparr>) \<and>
   tun_phase world_renamed True ''utun'' =
     ([Call_CreateTUN ''utun'' 1420, Call_Name,
       Log_line ''DEBUG: (utun3) '' ''Starting wireguard-go version %s'' [ArgS ''0.0.20250522'']],
      Inr locals_renamed) \<and>
   Call_UAPIOpen ''utun3'' \<in> set (trace (main world_renamed)) \<and>
   list_all (names_ok ''utun3'') (trace (main world_renamed))"
proof -
  have 1: "parse_args world_renamed = ([], Inr (True, ''utun''))"
    by (simp add: main_defs world_renamed_def world_fg_def locals_renamed_def)
  have 2: "Getenv world_renamed ENV_WG_TUN_FD = []" "Getenv world_renamed ENV_WG_UAPI_FD = []"
    by (simp_all add: main_defs world_renamed_def world_fg_def locals_renamed_def)
  have 3: "CreateTUN world_renamed ''utun'' (DefaultMTU world_renamed) =
      Inr \<lparr>dev_Name = Inr ''utun3'', dev_File = Some (LibFile 5)\<rparr>"
    by (simp add: world_renamed_def world_fg_def locals_renamed_def)
  have 4: "dev_Name \<lparr>dev_Name = Inr ''utun3'', dev_File = Some (LibFile 5)\<rparr> = Inr ''utun3''"
    by simp
  have 5: "tun_phase world_renamed True ''utun'' =
     ([Call_CreateTUN ''utun'' 1420, Call_Name,
       Log_line ''DEBUG: (utun3) '' ''Starting wireguard-go version %s'' [ArgS ''0.0.20250522'']],
      Inr locals_renamed)"
    "DefaultMTU world_renamed = 1420" "Args world_renamed = [''wireguard-go'', ''-f'', ''utun'']"
    by (simp_all add: main_defs world_renamed_def world_fg_def locals_renamed_def)
  from fresh_tunnel_uses_actual_name [OF 1 2(1) 3 4] 2(2) 5 show ?thesis
    by auto
qed

text \<open>
  Claim C10. Let the command line be accepted with the interface name \<open>name\<close>, let the
  tunnel device be created or adopted, and let reading its name fail. Then main goes on
  past line 154 (it does not exit there) and writes no line of the error sink up to that
  point; the interface name it keeps is the requested \<open>name\<close>: the logger is made with the
  label \<open>(name)\<close>, the configuration socket is opened by the name \<open>name\<close> when no socket
  descriptor is supplied, and in the whole run every log line carries the label \<open>(name)\<close>
  and every call that binds or listens on the configuration socket is given \<open>name\<close>.
\<close>

theorem name_read_failure_tolerated:
  assumes "parse_args w = (ev1, Inr (fg, name))"
    and "open_tun w name = (ev, Inr dev)"
    and "dev_Name dev = Inl err2"
  shows "(\<exists>ls. tun_phase w fg name =
            (ev @ [Call_Name]
               @ call_logf (Verbosef (logger ls)) ''Starting wireguard-go version %s'' [ArgS (Version w)],
             Inr ls) \<and>
          interfaceName ls = name \<and> tdev ls = dev \<and>
          logger ls = NewLogger (logLevel w) (''('' @ name @ '') '') \<and>
          (Getenv w ENV_WG_UAPI_FD = [] \<longrightarrow>
             open_uapi w (interfaceName ls) = ([Call_UAPIOpen name], UAPIOpen w name) \<and>
             Call_UAPIOpen name \<in> set (trace (main w)))) \<and>
    list_all (\<lambda>e. \<not> is_error_line e) (fst (tun_phase w fg name)) \<and>
    list_all (names_ok name) (trace (main w))"
proof -
  have r: "snd (read_name name (Inr dev)) = name"
    using assms(3) by (simp add: read_name_def)
  let ?ls = "\<lparr>foreground = (if \<not> fg then Getenv w ENV_WG_PROCESS_FOREGROUND = ''1'' else fg),
          interfaceName = name, tdev = dev,
          logger = NewLogger (logLevel w) (''('' @ name @ '') '')\<rparr>"
  have t: "tun_phase w fg name =
            (ev @ [Call_Name]
               @ call_logf (Verbosef (logger ?ls)) ''Starting wireguard-go version %s'' [ArgS (Version w)],
             Inr ?ls)"
    using tun_phase_ok [OF assms(2), of fg] r by simp
  have u: "Getenv w ENV_WG_UAPI_FD = [] \<longrightarrow>
             open_uapi w (interfaceName ?ls) = ([Call_UAPIOpen name], UAPIOpen w name) \<and>
             Call_UAPIOpen name \<in> set (trace (main w))"
    using uapi_phase_by_name(1) [of w name] main_binds_by_name [OF assms(1) t] by simp
  have n: "list_all (names_ok name) (trace (main w))"
    using main_names_ok [OF assms(1,2)] r by simp
  have q: "list_all (\<lambda>e. \<not> is_error_line e) ev"
    using open_tun_all [of "\<lambda>e. \<not> is_error_line e" w name] assms(2) by simp
  have e: "list_all (\<lambda>e. \<not> is_error_line e) (fst (tun_phase w fg name))"
    using q verbose_line_not_error [of "logLevel w" "''('' @ name @ '') ''"] by (simp add: t)
  have "tun_phase w fg name =
            (ev @ [Call_Name]
               @ call_logf (Verbosef (logger ?ls)) ''Starting wireguard-go version %s'' [ArgS (Version w)],
             Inr ?ls) \<and>
          interfaceName ?ls = name \<and> tdev ?ls = dev \<and>
          logger ?ls = NewLogger (logLevel w) (''('' @ name @ '') '') \<and>
          (Getenv w ENV_WG_UAPI_FD = [] \<longrightarrow>
             open_uapi w (interfaceName ?ls) = ([Call_UAPIOpen name], UAPIOpen w name) \<and>
             Call_UAPIOpen name \<in> set (trace (main w)))"
    using t u by simp
  then show ?thesis using e n by blast
qed

theorem name_read_failure_tolerated_witness:
  "open_tun world_noname ''wg0'' =
     ([Call_CreateTUN ''wg0'' 1420],
      Inr \<lparr>dev_Name = Inl (OSError ''ioctl failed''), dev_File = Some (LibFile 5)\<rparr>) \<and>
   tun_phase world_noname True ''wg0'' =
     ([Call_CreateTUN ''wg0'' 1420, Call_Name,
       Log_line ''DEBUG: (wg0) '' ''Starting wireguard-go version %s'' [ArgS ''0.0.20250522'']],
      Inr locals_noname) \<and>
   Call_UAPIOpen ''wg0'' \<in> set (trace (main world_noname)) \<and>
   list_all (names_ok ''wg0'') (trace (main world_noname)) \<and>
   status (main world_noname) = Exited 0"
proof -
  have 1: "parse_args world_noname = ([Warning_banner], Inr (True, ''wg0''))"
    by (simp add: main_defs world_noname_def world_fg_def locals_noname_def)
  have 2: "open_tun world_noname ''wg0'' =
     ([Call_CreateTUN ''wg0'' 1420],
      Inr \<lparr>dev_Name = Inl (OSError ''ioctl failed''), dev_File = Some (LibFile 5)\<rparr>)"
    by (simp add: main_defs world_noname_def world_fg_def locals_noname_def)
  have 3: "dev_Name \<lparr>dev_Name = Inl (OSError ''ioctl failed''), dev_File = Some (LibFile 5)\<rparr>
      = Inl (OSError ''ioctl failed'')"
    by simp
  have 4: "Getenv world_noname ENV_WG_UAPI_FD = []"
    by (simp add: main_defs world_noname_def world_fg_def locals_noname_def)
  have 5: "tun_phase world_noname True ''wg0'' =
     ([Call_CreateTUN ''wg0'' 1420, Call_Name,
       Log_line ''DEBUG: (wg0) '' ''Starting wireguard-go version %s'' [ArgS ''0.0.20250522'']],
      Inr locals_noname)"
    "status (main world_noname) = Exited 0"
    by (simp_all add: main_defs world_noname_def world_fg_def locals_noname_def)
  from name_read_failure_tolerated [OF 1 2 3] 2 4 5 show ?thesis
    by auto
qed

end
